theory Spec2Isabelle
  imports Complex_Main "HOL-Library.Multiset"
begin

section \<open>JavaScript numbers\<close>

text \<open>
  The front end computes with JavaScript numbers. They are modelled as exact reals
  extended with the three special values that the code can produce from finite inputs:
  \<open>Infinity\<close>, \<open>-Infinity\<close> and \<open>NaN\<close>. Zero is unsigned: a division of a non-zero finite
  number by zero takes the sign of the numerator. Data that arrives from the back end
  (closes, predictions, scores) is taken to be finite and has type \<open>real\<close>. The operations
  \<open>jadd\<close>, \<open>jsub\<close>, \<open>jmul\<close> and \<open>jdiv\<close> compute a finite result exactly; the operations
  \<open>dadd\<close>, \<open>dsub\<close> and \<open>ddiv\<close> below round it to binary64. \<open>computeRSI\<close>, whose result
  at 100 depends on rounding, is written with the rounded operations.
\<close>

datatype number = Fin real | PInf | NInf | NaN

fun jneg :: "number \<Rightarrow> number" where
  "jneg (Fin a) = Fin (- a)"
| "jneg PInf = NInf"
| "jneg NInf = PInf"
| "jneg NaN = NaN"

fun jadd :: "number \<Rightarrow> number \<Rightarrow> number" where
  "jadd NaN y = NaN"
| "jadd x NaN = NaN"
| "jadd (Fin a) (Fin b) = Fin (a + b)"
| "jadd PInf NInf = NaN"
| "jadd NInf PInf = NaN"
| "jadd PInf y = PInf"
| "jadd NInf y = NInf"
| "jadd (Fin a) y = y"

definition jsub :: "number \<Rightarrow> number \<Rightarrow> number" where
  "jsub x y = jadd x (jneg y)"

fun is_zero :: "number \<Rightarrow> bool" where
  "is_zero (Fin a) = (a = 0)"
| "is_zero x = False"

fun is_negative :: "number \<Rightarrow> bool" where
  "is_negative (Fin a) = (a < 0)"
| "is_negative NInf = True"
| "is_negative x = False"

fun jmul :: "number \<Rightarrow> number \<Rightarrow> number" where
  "jmul NaN y = NaN"
| "jmul x NaN = NaN"
| "jmul (Fin a) (Fin b) = Fin (a * b)"
| "jmul x y =
     (if is_zero x \<or> is_zero y then NaN
      else if is_negative x = is_negative y then PInf else NInf)"

fun jdiv :: "number \<Rightarrow> number \<Rightarrow> number" where
  "jdiv NaN y = NaN"
| "jdiv x NaN = NaN"
| "jdiv (Fin a) (Fin b) =
     (if b \<noteq> 0 then Fin (a / b)
      else if a = 0 then NaN
      else if 0 < a then PInf else NInf)"
| "jdiv (Fin a) y = Fin 0"
| "jdiv x (Fin b) = (if is_negative x = (b < 0) then PInf else NInf)"
| "jdiv x y = NaN"

text \<open>\<open>Math.abs\<close>, \<open>Math.sqrt\<close>, \<open>Math.pow(x, 2)\<close>, \<open>Math.min\<close> and \<open>Math.max\<close>.\<close>

fun jabs :: "number \<Rightarrow> number" where
  "jabs (Fin a) = Fin \<bar>a\<bar>"
| "jabs NaN = NaN"
| "jabs x = PInf"

fun jsqrt :: "number \<Rightarrow> number" where
  "jsqrt (Fin a) = (if a < 0 then NaN else Fin (sqrt a))"
| "jsqrt PInf = PInf"
| "jsqrt x = NaN"

fun jpow2 :: "number \<Rightarrow> number" where
  "jpow2 (Fin a) = Fin (a ^ 2)"
| "jpow2 NaN = NaN"
| "jpow2 x = PInf"

text \<open>The comparisons \<open>>=\<close> and \<open>===\<close>; each is false when an operand is \<open>NaN\<close>.\<close>

fun jge :: "number \<Rightarrow> number \<Rightarrow> bool" where
  "jge NaN y = False"
| "jge x NaN = False"
| "jge (Fin a) (Fin b) = (b \<le> a)"
| "jge PInf y = True"
| "jge x NInf = True"
| "jge x y = False"

fun jeq :: "number \<Rightarrow> number \<Rightarrow> bool" where
  "jeq NaN y = False"
| "jeq x NaN = False"
| "jeq x y = (x = y)"

definition jmin :: "number \<Rightarrow> number \<Rightarrow> number" where
  "jmin x y = (if x = NaN \<or> y = NaN then NaN else if jge x y then y else x)"

definition jmax :: "number \<Rightarrow> number \<Rightarrow> number" where
  "jmax x y = (if x = NaN \<or> y = NaN then NaN else if jge x y then x else y)"

text \<open>
  Binary64 rounding. \<open>rne\<close> rounds a real to the nearest integer, ties to the even one.
  \<open>quantum x\<close> is the spacing of the doubles around a non-zero \<open>x\<close>: \<open>2^(e - 52)\<close> with
  \<open>e\<close> the binary exponent of \<open>x\<close>, and \<open>2^(-1074)\<close> in the subnormal range. \<open>round64\<close>
  rounds to the nearest multiple of the quantum and overflows to an infinity when the
  rounded magnitude reaches \<open>2^1024\<close>.
\<close>

definition rne :: "real \<Rightarrow> int" where
  "rne y =
     (let f = \<lfloor>y\<rfloor>; d = y - of_int f
      in if d < 1 / 2 then f
         else if 1 / 2 < d then f + 1
         else if even f then f else f + 1)"

definition quantum :: "real \<Rightarrow> real" where
  "quantum x = 2 powr (of_int (max \<lfloor>log 2 \<bar>x\<bar>\<rfloor> (- 1022)) - 52)"

definition round64 :: "real \<Rightarrow> number" where
  "round64 x =
     (if x = 0 then Fin 0
      else let q = quantum x; r = q * of_int (rne (x / q))
           in if 2 ^ 1024 \<le> \<bar>r\<bar> then (if 0 < x then PInf else NInf) else Fin r)"

definition rounded :: "number \<Rightarrow> number" where
  "rounded x = (case x of Fin a \<Rightarrow> round64 a | _ \<Rightarrow> x)"

definition dadd :: "number \<Rightarrow> number \<Rightarrow> number" where
  "dadd x y = rounded (jadd x y)"

definition dsub :: "number \<Rightarrow> number \<Rightarrow> number" where
  "dsub x y = rounded (jsub x y)"

definition ddiv :: "number \<Rightarrow> number \<Rightarrow> number" where
  "ddiv x y = rounded (jdiv x y)"

text \<open>A number that is not negative: a finite value of at least 0, or \<open>Infinity\<close>.\<close>

definition nonneg :: "number \<Rightarrow> bool" where
  "nonneg x = (case x of Fin a \<Rightarrow> 0 \<le> a | PInf \<Rightarrow> True | _ \<Rightarrow> False)"

text \<open>
  A read \<open>values[i]\<close> used as an operand: out of range it is \<open>undefined\<close>, which
  arithmetic turns into \<open>NaN\<close>.
\<close>

definition elem_at :: "real list \<Rightarrow> int \<Rightarrow> number" where
  "elem_at values i = (if 0 \<le> i \<and> i < int (length values) then Fin (values ! nat i) else NaN)"

text \<open>\<open>values.slice(start)\<close> and \<open>values.slice(0, end)\<close> with integer arguments.\<close>

definition slice_from :: "'a list \<Rightarrow> int \<Rightarrow> 'a list" where
  "slice_from values start =
     (let n = int (length values);
          k = (if start < 0 then max (n + start) 0 else min start n)
      in drop (nat k) values)"

definition slice_to :: "'a list \<Rightarrow> int \<Rightarrow> 'a list" where
  "slice_to values end =
     (let n = int (length values);
          k = (if end < 0 then max (n + end) 0 else min end n)
      in take (nat k) values)"

section \<open>Prediction orchestrator: horizon\<close>

text \<open>
  \<open>getPredictionLengthForTimeframe\<close> of \<open>StockPrediction.jsx\<close>: a switch on the timeframe
  token; the model argument is not used.
\<close>

definition getPredictionLengthForTimeframe :: "string \<Rightarrow> string \<Rightarrow> int" where
  "getPredictionLengthForTimeframe tf model =
     (if tf = ''1D'' then 1
      else if tf = ''3D'' then 3
      else if tf = ''1W'' then 7
      else if tf = ''2W'' then 14
      else if tf = ''1M'' then 30
      else 3)"

text \<open>The first statements of \<open>runPrediction\<close>: the horizon sent to the inference provider.\<close>

definition prediction_length :: "string \<Rightarrow> string \<Rightarrow> int" where
  "prediction_length timeframe modelType =
     (let requested = getPredictionLengthForTimeframe timeframe modelType
      in if modelType = ''TIMESNET'' then 3
         else if modelType = ''TRANSFORMER'' then min 3 (max 1 requested)
         else requested)"

section \<open>Indicator engine\<close>

text \<open>
  \<open>computeSMA\<close>, \<open>computeEMA\<close> and \<open>computeRSI\<close> of \<open>StockPrediction.jsx\<close>. \<open>values\<close> is an
  array of finite numbers (the callers pass the filtered closes), \<open>period\<close> an integer.
  \<open>null\<close> is \<open>None\<close>. \<open>reduce((a, b) => a + b, 0)\<close> is a left fold; it stays finite on
  finite input.
\<close>

definition computeSMA :: "real list \<Rightarrow> int \<Rightarrow> number option" where
  "computeSMA values period =
     (if int (length values) < period then None
      else let slice = slice_from values (- period);
               avg = jdiv (Fin (foldl (\<lambda>a b. a + b) 0 slice)) (Fin (real_of_int period))
           in Some avg)"

definition ema_step :: "real list \<Rightarrow> number \<Rightarrow> int \<Rightarrow> number \<Rightarrow> number" where
  "ema_step values k i ema = jadd (jmul (elem_at values i) k) (jmul ema (jsub (Fin 1) k))"

definition computeEMA :: "real list \<Rightarrow> int \<Rightarrow> number option" where
  "computeEMA values period =
     (if int (length values) < period then None
      else let k = jdiv (Fin 2) (Fin (real_of_int (period + 1)));
               seed = jdiv (Fin (foldl (\<lambda>a b. a + b) 0 (slice_to values period)))
                           (Fin (real_of_int period))
           in Some (fold (ema_step values k) [period..int (length values) - 1] seed))"

definition rsi_step :: "real list \<Rightarrow> int \<Rightarrow> number \<times> number \<Rightarrow> number \<times> number" where
  "rsi_step values i acc =
     (case acc of (gains, losses) \<Rightarrow>
        let diff = dsub (elem_at values i) (elem_at values (i - 1))
        in if jge diff (Fin 0) then (dadd gains diff, losses)
           else (gains, dadd losses (jabs diff)))"

definition rsi_sums :: "real list \<Rightarrow> int \<Rightarrow> number \<times> number" where
  "rsi_sums values period =
     fold (rsi_step values)
       [int (length values) - period..int (length values) - 1] (Fin 0, Fin 0)"

definition rsi_averages :: "real list \<Rightarrow> int \<Rightarrow> number \<times> number" where
  "rsi_averages values period =
     (case rsi_sums values period of (gains, losses) \<Rightarrow>
        (ddiv gains (Fin (real_of_int period)), ddiv losses (Fin (real_of_int period))))"

definition computeRSI :: "real list \<Rightarrow> int \<Rightarrow> number option" where
  "computeRSI values period =
     (if int (length values) < period + 1 then None
      else case rsi_averages values period of (avgGain, avgLoss) \<Rightarrow>
        if jeq avgLoss (Fin 0) then Some (Fin 100)
        else let rs = ddiv avgGain avgLoss
             in Some (dsub (Fin 100) (ddiv (Fin 100) (dadd (Fin 1) rs))))"

text \<open>
  The average loss as the specification words it: over the last \<open>period\<close> consecutive
  differences, the absolute values of the negative ones are summed and divided by
  \<open>period\<close>.
\<close>

definition loss_at :: "real list \<Rightarrow> int \<Rightarrow> real" where
  "loss_at values i =
     (let d = values ! nat i - values ! nat (i - 1) in if d < 0 then \<bar>d\<bar> else 0)"

definition avg_loss :: "real list \<Rightarrow> int \<Rightarrow> real" where
  "avg_loss values period =
     sum_list (map (loss_at values) [int (length values) - period..int (length values) - 1])
       / real_of_int period"

text \<open>
  The indicator part of \<open>runPrediction\<close>: the closes are the positive \<open>Close\<close> values of
  the history rows; MACD is the difference of the two EMAs when both are present. A
  stored field is either the text \<open>N/A\<close> or \<open>Number(x).toFixed(d)\<close>.
\<close>

definition closes_of :: "real list \<Rightarrow> real list" where
  "closes_of rows = filter (\<lambda>v. 0 < v) rows"

definition macd_of :: "real list \<Rightarrow> number option" where
  "macd_of closes =
     (case (computeEMA closes 12, computeEMA closes 26) of
        (Some ema12, Some ema26) \<Rightarrow> Some (jsub ema12 ema26)
      | _ \<Rightarrow> None)"

datatype shown = NA | ToFixed number nat

definition show_indicator :: "number option \<Rightarrow> nat \<Rightarrow> shown" where
  "show_indicator v digits = (case v of Some x \<Rightarrow> ToFixed x digits | None \<Rightarrow> NA)"

record technicalIndicators =
  rsi :: shown
  macd :: shown
  movingAvg50 :: shown
  movingAvg200 :: shown

definition indicators_of :: "real list \<Rightarrow> technicalIndicators" where
  "indicators_of closes =
     \<lparr> rsi = show_indicator (computeRSI closes 14) 1,
       macd = show_indicator (macd_of closes) 2,
       movingAvg50 = show_indicator (computeSMA closes 50) 2,
       movingAvg200 = show_indicator (computeSMA closes 200) 2 \<rparr>"

text \<open>
  The indicator cells of the page. The RSI and MACD cells show the stored text. Each
  moving-average cell shows \<open>formatCurrency(Number(text || 0))\<close>: the stored text is a
  non-empty string, so \<open>text || 0\<close> is the text, and \<open>Number('N/A')\<close> is \<open>NaN\<close>.
  \<open>formatCurrency\<close> (the helpers file) starts from \<open>Number(value || 0)\<close>, which is 0 for
  \<open>NaN\<close> and for 0, multiplies by the cached exchange rate when there is one, and formats
  the amount as currency. \<open>numberOf x d\<close> is the number read back from \<open>x.toFixed(d)\<close>,
  a composition of built-ins and a parameter here; \<open>rate\<close> is the cached exchange rate,
  \<open>None\<close> when the display currency is USD or no rate is cached. \<open>Currency a\<close> is the
  currency format of the amount \<open>a\<close>.
\<close>

datatype cell = Text shown | Currency number

definition text_number :: "(number \<Rightarrow> nat \<Rightarrow> number) \<Rightarrow> shown \<Rightarrow> number" where
  "text_number numberOf t = (case t of NA \<Rightarrow> NaN | ToFixed x d \<Rightarrow> numberOf x d)"

definition formatCurrency :: "real option \<Rightarrow> number \<Rightarrow> cell" where
  "formatCurrency rate v =
     (let amount = (if v = NaN \<or> v = Fin 0 then Fin 0 else v)
      in case rate of
           Some r \<Rightarrow> if r \<noteq> 0 then Currency (jmul amount (Fin r)) else Currency amount
         | None \<Rightarrow> Currency amount)"

record indicator_cells =
  rsi_cell :: cell
  macd_cell :: cell
  movingAvg50_cell :: cell
  movingAvg200_cell :: cell

definition render_indicators ::
    "(number \<Rightarrow> nat \<Rightarrow> number) \<Rightarrow> real option \<Rightarrow> technicalIndicators \<Rightarrow> indicator_cells" where
  "render_indicators numberOf rate ti =
     \<lparr> rsi_cell = Text (rsi ti),
       macd_cell = Text (macd ti),
       movingAvg50_cell = formatCurrency rate (text_number numberOf (movingAvg50 ti)),
       movingAvg200_cell = formatCurrency rate (text_number numberOf (movingAvg200 ti)) \<rparr>"

section \<open>Prediction orchestrator: derived forecast\<close>

text \<open>
  The response of \<open>predictionAPI.predict\<close>: \<open>predictions\<close> is \<open>None\<close> when the field is not
  an array.
\<close>

record prediction_response =
  symbol :: string
  current_price :: real
  predictions :: "real list option"

text \<open>
  The confidence of \<open>runPrediction\<close>: mean and population variance of the predictions,
  then \<open>Math.max(50, Math.min(95, 100 - Math.sqrt(variance) / currentPrice * 100))\<close>,
  guarded by \<open>preds.length > 0 && currentPrice > 0\<close>.
\<close>

definition mean_of :: "real list \<Rightarrow> number" where
  "mean_of preds = jdiv (Fin (foldl (\<lambda>a b. a + b) 0 preds)) (Fin (real (length preds)))"

definition variance_of :: "real list \<Rightarrow> number" where
  "variance_of preds =
     (let avg = mean_of preds
      in jdiv (foldl (\<lambda>sum p. jadd sum (jpow2 (jsub (Fin p) avg))) (Fin 0) preds)
              (Fin (real (length preds))))"

definition clamped_confidence :: "real list \<Rightarrow> real \<Rightarrow> number" where
  "clamped_confidence preds price =
     jmax (Fin 50)
       (jmin (Fin 95)
          (jsub (Fin 100) (jmul (jdiv (jsqrt (variance_of preds)) (Fin price)) (Fin 100))))"

text \<open>
  The population variance as the specification words it, over the reals.
\<close>

definition population_variance :: "real list \<Rightarrow> real" where
  "population_variance xs =
     (let n = real (length xs); m = sum_list xs / n
      in sum_list (map (\<lambda>x. (x - m) ^ 2) xs) / n)"

definition runPrediction_confidence :: "real list \<Rightarrow> real \<Rightarrow> number" where
  "runPrediction_confidence preds price =
     (if 0 < length preds \<and> 0 < price then clamped_confidence preds price else Fin 50)"

record predictionData =
  currentPrice :: real
  trend :: string
  changePercent :: real
  confidence :: number

text \<open>
  \<open>runPrediction\<close> after the two fetches: \<open>latest\<close> is the close of the latest row
  (\<open>None\<close> when there is no row), \<open>result\<close> the provider's response.
\<close>

definition runPrediction :: "real option \<Rightarrow> prediction_response \<Rightarrow> predictionData" where
  "runPrediction latest result =
     (let latestClose = (case latest of Some c \<Rightarrow> c | None \<Rightarrow> 0);
          price = (if 0 < latestClose then latestClose else current_price result);
          preds = (case predictions result of Some ps \<Rightarrow> ps | None \<Rightarrow> []);
          firstPrediction = (case preds of p # rest \<Rightarrow> p | [] \<Rightarrow> price)
      in \<lparr> currentPrice = price,
           trend = (if price < firstPrediction then ''Bullish'' else ''Bearish''),
           changePercent =
             (if 0 < price then ((firstPrediction - price) / price) * 100 else 0),
           confidence = runPrediction_confidence preds price \<rparr>)"

text \<open>
  The confidence of \<open>generatePrediction\<close> in \<open>PredictionPanel.jsx\<close>: the same expression,
  with \<open>currentPrice = result.current_price || 0\<close> and without the guard. The panel reads
  \<open>result.predictions\<close> as an array.
\<close>

definition generatePrediction_confidence :: "real \<Rightarrow> real list \<Rightarrow> number" where
  "generatePrediction_confidence price preds = clamped_confidence preds price"

section \<open>Alert synthesizer\<close>

text \<open>
  An alert of \<open>Alerts.jsx\<close>. The types \<open>'price'\<close>, \<open>'sentiment'\<close>, \<open>'prediction'\<close> and the
  severities \<open>'high'\<close>, \<open>'medium'\<close>, \<open>'low'\<close> are the only strings the code writes into
  these fields. The \<open>timestamp\<close> and \<open>icon\<close> fields are display text and are left out.
\<close>

datatype alert_kind = Price | Sentiment | Prediction

datatype severity_level = High | Medium | Low

record alert =
  alert_id :: int
  alert_type :: alert_kind
  severity :: severity_level
  stock :: string
  title :: string
  message :: string
  read :: bool

definition severityFromPct :: "number \<Rightarrow> severity_level" where
  "severityFromPct pctAbs =
     (if jge pctAbs (Fin 2) then High
      else if jge pctAbs (Fin 1) then Medium
      else Low)"

record notificationSettings =
  emailAlerts :: bool
  priceAlerts :: bool
  sentimentAlerts :: bool
  predictionAlerts :: bool
  newsAlerts :: bool
  weeklyReport :: bool

text \<open>
  The collaborators of a synthesis run. A fetch that throws is \<open>None\<close>. The rows of
  \<open>getStockData(sym, 2)\<close> are given by their closes; a news response may lack either
  field. \<open>toFixed\<close> and the number-to-text conversion of a template literal are built-ins
  of the language and are parameters here.
\<close>

record news_response =
  sentimentScore :: "real option"
  overallSentiment :: "string option"

record services =
  getStockData :: "string \<Rightarrow> real list option"
  getLatestNews :: "string \<Rightarrow> news_response option"
  predict :: "string \<Rightarrow> prediction_response option"
  toFixed :: "number \<Rightarrow> nat \<Rightarrow> string"
  toText :: "number \<Rightarrow> string"

definition priceAlert :: "services \<Rightarrow> string \<Rightarrow> real list \<Rightarrow> int \<Rightarrow> alert" where
  "priceAlert sv symb rows nid =
     (let latestClose = (if rows = [] then 0 else last rows);
          prevClose = (if 1 < length rows then rows ! (length rows - 2) else latestClose);
          pct = (if 0 < prevClose then ((latestClose - prevClose) / prevClose) * 100 else 0);
          pctAbs = \<bar>pct\<bar>
      in \<lparr> alert_id = nid,
           alert_type = Price,
           severity = severityFromPct (Fin pctAbs),
           stock = symb,
           title = ''Price update: '' @ symb,
           message = symb @ '' is '' @ (if 0 \<le> pct then ''up'' else ''down'') @ '' ''
              @ toFixed sv (Fin pctAbs) 2 @ ''% (Close: $''
              @ toFixed sv (Fin latestClose) 2 @ '')'',
           read = False \<rparr>)"

definition news_score :: "news_response \<Rightarrow> real" where
  "news_score news = (case sentimentScore news of Some s \<Rightarrow> s | None \<Rightarrow> 0.5)"

definition sentimentAlert ::
    "services \<Rightarrow> string \<Rightarrow> news_response \<Rightarrow> int \<Rightarrow> alert option" where
  "sentimentAlert sv symb news nid =
     (let score = news_score news;
          overall = (case overallSentiment news of Some t \<Rightarrow> t | None \<Rightarrow> ''Neutral'')
      in if 0.62 \<le> score \<or> score \<le> 0.38
         then Some \<lparr> alert_id = nid,
                     alert_type = Sentiment,
                     severity = (if score \<le> 0.38 then High else Medium),
                     stock = symb,
                     title = overall @ '' sentiment detected'',
                     message = symb @ '' news sentiment is '' @ overall @ '' (''
                        @ toText sv (Fin (of_int \<lfloor>score * 100 + 1 / 2\<rfloor>))
                        @ ''%) based on latest headlines'',
                     read = False \<rparr>
         else None)"

text \<open>The percent change that a prediction alert classifies.\<close>

definition prediction_pct :: "prediction_response \<Rightarrow> number" where
  "prediction_pct pred =
     (let current = current_price pred;
          p1 = (case predictions pred of Some ps \<Rightarrow> elem_at ps 0 | None \<Rightarrow> Fin current)
      in if 0 < current
         then jmul (jdiv (jsub p1 (Fin current)) (Fin current)) (Fin 100)
         else Fin 0)"

definition predictionAlert ::
    "services \<Rightarrow> string \<Rightarrow> prediction_response \<Rightarrow> int \<Rightarrow> alert" where
  "predictionAlert sv symb pred nid =
     (let current = current_price pred;
          p1 = (case predictions pred of Some ps \<Rightarrow> elem_at ps 0 | None \<Rightarrow> Fin current);
          pct = (if 0 < current
                 then jmul (jdiv (jsub p1 (Fin current)) (Fin current)) (Fin 100)
                 else Fin 0);
          dir = (if jge pct (Fin 0) then ''Bullish'' else ''Bearish'');
          pctAbs = jabs pct
      in \<lparr> alert_id = nid,
           alert_type = Prediction,
           severity = severityFromPct pctAbs,
           stock = symb,
           title = dir @ '' prediction ('' @ symb @ '')'',
           message = symb @ '' predicted '' @ (if jge pct (Fin 0) then ''up'' else ''down'')
              @ '' '' @ toFixed sv pctAbs 2 @ ''% (1-step forecast)'',
           read = False \<rparr>)"

text \<open>
  The state of a run: the next id, the alerts built so far, and the fetches issued. Within
  one signal type the fetches are taken to resolve in the order of the symbols; the
  three types run one after the other, as the \<open>await\<close>s order them.
\<close>

datatype request = GetStockData string | GetLatestNews string | Predict string

record synthesis =
  nextId :: int
  built :: "alert list"
  requests :: "request list"

definition push :: "alert \<Rightarrow> synthesis \<Rightarrow> synthesis" where
  "push a st = st\<lparr>built := built st @ [a], nextId := nextId st + 1\<rparr>"

definition price_step :: "services \<Rightarrow> string \<Rightarrow> synthesis \<Rightarrow> synthesis" where
  "price_step sv symb st =
     (let st1 = st\<lparr>requests := requests st @ [GetStockData symb]\<rparr>
      in case getStockData sv symb of
           None \<Rightarrow> st1
         | Some rows \<Rightarrow> push (priceAlert sv symb rows (nextId st1)) st1)"

definition sentiment_step :: "services \<Rightarrow> string \<Rightarrow> synthesis \<Rightarrow> synthesis" where
  "sentiment_step sv symb st =
     (let st1 = st\<lparr>requests := requests st @ [GetLatestNews symb]\<rparr>
      in case getLatestNews sv symb of
           None \<Rightarrow> st1
         | Some news \<Rightarrow>
             (case sentimentAlert sv symb news (nextId st1) of
                None \<Rightarrow> st1
              | Some a \<Rightarrow> push a st1))"

definition prediction_step :: "services \<Rightarrow> string \<Rightarrow> synthesis \<Rightarrow> synthesis" where
  "prediction_step sv symb st =
     (let st1 = st\<lparr>requests := requests st @ [Predict symb]\<rparr>
      in case predict sv symb of
           None \<Rightarrow> st1
         | Some pred \<Rightarrow> push (predictionAlert sv symb pred (nextId st1)) st1)"

text \<open>
  \<open>watchlist\<close> is the list of upper-cased, non-empty symbols read from local storage;
  \<open>now\<close> is \<open>Date.now()\<close>, the first id.
\<close>

definition batch :: "string list \<Rightarrow> string list" where
  "batch watchlist =
     take 8 (if watchlist = [] then [''AAPL'', ''GOOGL'', ''MSFT''] else watchlist)"

definition synthesize ::
    "services \<Rightarrow> notificationSettings \<Rightarrow> int \<Rightarrow> string list \<Rightarrow> synthesis" where
  "synthesize sv ns now watchlist =
     (let symbols = batch watchlist;
          st0 = \<lparr> nextId = now, built = [], requests = [] \<rparr>;
          st1 = (if priceAlerts ns then fold (price_step sv) symbols st0 else st0);
          st2 = (if sentimentAlerts ns \<or> newsAlerts ns
                 then fold (sentiment_step sv) (take 6 symbols) st1 else st1);
          st3 = (if predictionAlerts ns
                 then fold (prediction_step sv) (take 3 symbols) st2 else st2)
      in st3)"

text \<open>
  The comparator of the final sort. \<open>sevRank[s] ?? 9\<close> is the lookup with its fallback;
  \<open>d || e\<close> is \<open>e\<close> when \<open>d\<close> is 0.
\<close>

definition sevRank :: "severity_level \<rightharpoonup> int" where
  "sevRank = [High \<mapsto> 0, Medium \<mapsto> 1, Low \<mapsto> 2]"

definition rank_of :: "alert \<Rightarrow> int" where
  "rank_of a = (case sevRank (severity a) of Some r \<Rightarrow> r | None \<Rightarrow> 9)"

definition alert_compare :: "alert \<Rightarrow> alert \<Rightarrow> int" where
  "alert_compare a b =
     (if read a \<noteq> read b then (if read a then 1 else - 1)
      else let d = rank_of a - rank_of b
           in if d \<noteq> 0 then d else alert_id b - alert_id a)"

text \<open>
  \<open>Array.prototype.sort\<close> with a comparator is a stable sort; it is modelled by a stable
  insertion sort that places \<open>x\<close> before the first \<open>y\<close> with \<open>cmp x y \<le> 0\<close>.
\<close>

fun insert_by :: "('a \<Rightarrow> 'a \<Rightarrow> int) \<Rightarrow> 'a \<Rightarrow> 'a list \<Rightarrow> 'a list" where
  "insert_by cmp x [] = [x]"
| "insert_by cmp x (y # ys) = (if cmp x y \<le> 0 then x # y # ys else y # insert_by cmp x ys)"

definition sort_by :: "('a \<Rightarrow> 'a \<Rightarrow> int) \<Rightarrow> 'a list \<Rightarrow> 'a list" where
  "sort_by cmp xs = foldr (insert_by cmp) xs []"

definition loadAlerts ::
    "services \<Rightarrow> notificationSettings \<Rightarrow> int \<Rightarrow> string list \<Rightarrow> alert list" where
  "loadAlerts sv ns now watchlist = sort_by alert_compare (built (synthesize sv ns now watchlist))"

definition markAsRead :: "alert list \<Rightarrow> int \<Rightarrow> alert list" where
  "markAsRead alerts i = map (\<lambda>a. if alert_id a = i then a\<lparr>read := True\<rparr> else a) alerts"

definition deleteAlert :: "alert list \<Rightarrow> int \<Rightarrow> alert list" where
  "deleteAlert alerts i = filter (\<lambda>a. alert_id a \<noteq> i) alerts"

text \<open>
  The ordering contract as the specification words it: unread before read, then severity
  rank high(0) < medium(1) < low(2), then descending id.
\<close>

fun severity_rank :: "severity_level \<Rightarrow> nat" where
  "severity_rank High = 0"
| "severity_rank Medium = 1"
| "severity_rank Low = 2"

definition alert_order :: "alert \<Rightarrow> alert \<Rightarrow> bool" where
  "alert_order a b \<longleftrightarrow>
     (\<not> read a \<and> read b)
     \<or> (read a = read b
         \<and> (severity_rank (severity a) < severity_rank (severity b)
             \<or> (severity_rank (severity a) = severity_rank (severity b)
                 \<and> alert_id b \<le> alert_id a)))"

text \<open>
  The sentiment rule as the specification words it. \<open>emits\<close>: the news fetch for the
  symbol succeeds with a score outside the band. \<open>sentiment_rule\<close>: the alert's symbol has
  such a score, and the severity is high for a score of at most 0.38, medium otherwise.
\<close>

definition emits :: "services \<Rightarrow> string \<Rightarrow> bool" where
  "emits sv symb =
     (case getLatestNews sv symb of
        None \<Rightarrow> False
      | Some n \<Rightarrow> 0.62 \<le> news_score n \<or> news_score n \<le> 0.38)"

definition sentiment_rule :: "services \<Rightarrow> alert \<Rightarrow> bool" where
  "sentiment_rule sv a \<longleftrightarrow>
     (\<exists>n. getLatestNews sv (stock a) = Some n
          \<and> (0.62 \<le> news_score n \<or> news_score n \<le> 0.38)
          \<and> severity a = (if news_score n \<le> 0.38 then High else Medium))"

section \<open>Theorems\<close>

subsection \<open>Horizon\<close>

text \<open>
  C1. The timeframe table is 1D->1, 3D->3, 1W->7, 2W->14, 1M->30. For every timeframe the
  horizon of a TIMESNET request is exactly 3; that of a TRANSFORMER request is
  min(3, max(1, requested)) and so lies in [1,3]; every other family keeps the table value.
\<close>

theorem horizon_resolution:
  "getPredictionLengthForTimeframe ''1D'' m = 1
   \<and> getPredictionLengthForTimeframe ''3D'' m = 3
   \<and> getPredictionLengthForTimeframe ''1W'' m = 7
   \<and> getPredictionLengthForTimeframe ''2W'' m = 14
   \<and> getPredictionLengthForTimeframe ''1M'' m = 30
   \<and> prediction_length tf ''TIMESNET'' = 3
   \<and> prediction_length tf ''TRANSFORMER''
       = min 3 (max 1 (getPredictionLengthForTimeframe tf ''TRANSFORMER''))
   \<and> 1 \<le> prediction_length tf ''TRANSFORMER'' \<and> prediction_length tf ''TRANSFORMER'' \<le> 3
   \<and> (m \<noteq> ''TIMESNET'' \<and> m \<noteq> ''TRANSFORMER''
        \<longrightarrow> prediction_length tf m = getPredictionLengthForTimeframe tf m)"
  by (simp add: getPredictionLengthForTimeframe_def prediction_length_def Let_def)

theorem horizon_resolution_witness:
  "prediction_length ''1M'' ''TIMESNET'' = 3
   \<and> prediction_length ''1M'' ''TRANSFORMER'' = 3
   \<and> ''LSTM'' \<noteq> ''TIMESNET'' \<and> ''LSTM'' \<noteq> ''TRANSFORMER''
   \<and> prediction_length ''1M'' ''LSTM'' = 30"
  using horizon_resolution [of "''LSTM''" "''1M''"]
  by (simp add: getPredictionLengthForTimeframe_def)

subsection \<open>Binary64 rounding\<close>

lemma rne_ge_floor: "\<lfloor>y\<rfloor> \<le> rne y"
  by (simp add: rne_def Let_def)

lemma rne_le_ceiling: "rne y \<le> \<lceil>y\<rceil>"
proof -
  have "y - of_int \<lfloor>y\<rfloor> > 0 \<Longrightarrow> \<lfloor>y\<rfloor> + 1 \<le> \<lceil>y\<rceil>"
    by linarith
  moreover have "\<lfloor>y\<rfloor> \<le> \<lceil>y\<rceil>" by linarith
  ultimately show ?thesis
    by (auto simp: rne_def Let_def)
qed

lemma rne_near: "of_int m - 1 / 2 < y \<Longrightarrow> y < of_int m + 1 / 2 \<Longrightarrow> rne y = m"
proof -
  assume a: "of_int m - 1 / 2 < y" "y < of_int m + 1 / 2"
  consider "\<lfloor>y\<rfloor> = m" | "\<lfloor>y\<rfloor> = m - 1" using a by linarith
  then show ?thesis
  proof cases
    case 1
    then show ?thesis using a by (simp add: rne_def Let_def)
  next
    case 2
    then show ?thesis using a by (simp add: rne_def Let_def)
  qed
qed

lemma quantum_pos: "0 < quantum x"
  by (simp add: quantum_def)

lemma round64_zero: "round64 0 = Fin 0"
  by (simp add: round64_def)

lemma round64_cases:
  "round64 x = PInf \<or> round64 x = NInf \<or> (\<exists>r. round64 x = Fin r)"
  by (simp add: round64_def Let_def)

lemma round64_nonneg:
  assumes "0 \<le> x"
  shows "nonneg (round64 x)"
proof (cases "x = 0")
  case True
  then show ?thesis by (simp add: round64_def nonneg_def)
next
  case False
  with assms have pos: "0 < x" by simp
  have "0 \<le> x / quantum x" using pos quantum_pos [of x] by simp
  then have "0 \<le> \<lfloor>x / quantum x\<rfloor>" by simp
  then have "0 \<le> rne (x / quantum x)" using rne_ge_floor [of "x / quantum x"] by linarith
  then have "0 \<le> quantum x * of_int (rne (x / quantum x))"
    using quantum_pos [of x] by simp
  then show ?thesis using pos by (simp add: round64_def Let_def nonneg_def)
qed

lemma floor_log2_bounds:
  assumes "0 < x"
  shows "2 powr of_int \<lfloor>log 2 x\<rfloor> \<le> x" and "x < 2 powr (of_int \<lfloor>log 2 x\<rfloor> + 1)"
  using floor_log_eq_powr_iff [of x 2 "\<lfloor>log 2 x\<rfloor>"] assms by simp_all

lemma floor_log2_less:
  assumes "0 < x" and "x < 2 powr of_int k"
  shows "\<lfloor>log 2 x\<rfloor> < k"
proof -
  have "(2::real) powr of_int \<lfloor>log 2 x\<rfloor> < 2 powr of_int k"
    using floor_log2_bounds(1) [OF assms(1)] assms(2) by linarith
  then show ?thesis by simp
qed

lemma floor_log2_ge:
  assumes "0 < x" and "2 powr of_int k \<le> x"
  shows "k \<le> \<lfloor>log 2 x\<rfloor>"
proof -
  have "(2::real) powr of_int k < 2 powr (of_int \<lfloor>log 2 x\<rfloor> + 1)"
    using floor_log2_bounds(2) [OF assms(1)] assms(2) by linarith
  then have "of_int k < (of_int \<lfloor>log 2 x\<rfloor> + 1 :: real)" by simp
  then show ?thesis by linarith
qed

text \<open>
  Rounding does not cross a multiple of the quantum: a bound that is such a multiple
  bounds the rounded value too.
\<close>

lemma round64_le_multiple:
  assumes "0 < x" and "x \<le> c" and "c < 2 ^ 1024" and "c = quantum x * of_int N"
  shows "\<exists>r. round64 x = Fin r \<and> 0 \<le> r \<and> r \<le> c"
proof -
  let ?q = "quantum x"
  have q: "0 < ?q" by (rule quantum_pos)
  have "x / ?q \<le> of_int N"
    using assms(2,4) q by (simp add: field_simps)
  then have "\<lceil>x / ?q\<rceil> \<le> N" by (simp add: ceiling_le_iff)
  then have le: "rne (x / ?q) \<le> N" using rne_le_ceiling [of "x / ?q"] by linarith
  have "0 \<le> x / ?q" using assms(1) q by simp
  then have "0 \<le> \<lfloor>x / ?q\<rfloor>" by simp
  then have ge: "0 \<le> rne (x / ?q)" using rne_ge_floor [of "x / ?q"] by linarith
  let ?r = "?q * of_int (rne (x / ?q))"
  have r0: "0 \<le> ?r" using q ge by simp
  have "?r \<le> ?q * of_int N" using q le by simp
  then have rc: "?r \<le> c" using assms(4) by simp
  then have "\<bar>?r\<bar> < 2 ^ 1024" using r0 assms(3) by linarith
  then have "round64 x = Fin ?r"
    using assms(1) by (simp add: round64_def Let_def)
  with r0 rc show ?thesis by blast
qed

lemma round64_ge_multiple:
  assumes "0 < x" and "c \<le> x" and "c = quantum x * of_int N"
  shows "round64 x = PInf \<or> (\<exists>r. round64 x = Fin r \<and> c \<le> r)"
proof -
  let ?q = "quantum x"
  have q: "0 < ?q" by (rule quantum_pos)
  have "of_int N \<le> x / ?q"
    using assms(2,3) q by (simp add: field_simps)
  then have "N \<le> \<lfloor>x / ?q\<rfloor>" by (simp add: le_floor_iff)
  then have "N \<le> rne (x / ?q)" using rne_ge_floor [of "x / ?q"] by linarith
  then have "?q * of_int N \<le> ?q * of_int (rne (x / ?q))" using q by simp
  then have "c \<le> ?q * of_int (rne (x / ?q))" using assms(3) by simp
  then show ?thesis using assms(1) by (simp add: round64_def Let_def)
qed

lemma round64_ge_one:
  assumes "1 \<le> x"
  shows "round64 x = PInf \<or> (\<exists>r. round64 x = Fin r \<and> 1 \<le> r)"
proof -
  have pos: "0 < x" using assms by simp
  let ?e = "\<lfloor>log 2 x\<rfloor>"
  have e0: "0 \<le> ?e" using floor_log2_ge [of x 0] pos assms by simp
  have "\<bar>x\<bar> = x" using pos by simp
  then have "max \<lfloor>log 2 \<bar>x\<bar>\<rfloor> (- 1022) = ?e" using e0 by simp
  then have q: "quantum x = 2 powr (of_int ?e - 52)"
    unfolding quantum_def by simp
  have "2 powr of_int ?e = quantum x * of_int (2 ^ 52)"
    unfolding q by (simp add: powr_diff)
  from round64_ge_multiple [OF pos floor_log2_bounds(1) [OF pos] this]
  have "round64 x = PInf \<or> (\<exists>r. round64 x = Fin r \<and> 2 powr of_int ?e \<le> r)" .
  moreover have "1 \<le> (2::real) powr of_int ?e"
    using e0 by (simp add: ge_one_powr_ge_zero)
  ultimately show ?thesis by force
qed

lemma round64_le_hundred:
  assumes "0 \<le> x" and "x \<le> 100"
  shows "\<exists>r. round64 x = Fin r \<and> 0 \<le> r \<and> r \<le> 100"
proof (cases "x = 0")
  case True
  then show ?thesis by (simp add: round64_def)
next
  case False
  with assms have pos: "0 < x" by simp
  let ?e = "max \<lfloor>log 2 \<bar>x\<bar>\<rfloor> (- 1022)"
  have "x < 2 powr of_int 7" using assms(2) by simp
  then have "\<lfloor>log 2 x\<rfloor> < 7" using floor_log2_less [OF pos] by blast
  then have e: "?e \<le> 6" using pos by simp
  define n where "n = nat (52 - ?e)"
  have n: "of_int ?e - 52 = - real n" using e by (simp add: n_def)
  have "quantum x = 2 powr (- real n)" using n by (simp add: quantum_def)
  then have q: "quantum x = 1 / 2 ^ n"
    by (simp add: powr_minus powr_realpow inverse_eq_divide)
  have "100 = quantum x * of_int (100 * 2 ^ n)"
    unfolding q by simp
  from round64_le_multiple [OF pos assms(2) _ this] show ?thesis by simp
qed

text \<open>The value of \<open>round64\<close> at an argument whose binary exponent is known.\<close>

lemma quantum_binade:
  assumes "x \<noteq> 0" and "2 powr of_int e \<le> \<bar>x\<bar>" and "\<bar>x\<bar> < 2 powr (of_int e + 1)"
    and "- 1022 \<le> e"
  shows "quantum x = 2 powr (of_int e - 52)"
proof -
  have "\<lfloor>log 2 \<bar>x\<bar>\<rfloor> = e"
    using floor_log_eq_powr_iff [of "\<bar>x\<bar>" 2 e] assms by simp
  then have "max \<lfloor>log 2 \<bar>x\<bar>\<rfloor> (- 1022) = e" using assms(4) by simp
  then show ?thesis unfolding quantum_def by simp
qed

lemma round64_eval:
  assumes "x \<noteq> 0" and "2 powr of_int e \<le> \<bar>x\<bar>" and "\<bar>x\<bar> < 2 powr (of_int e + 1)"
    and "- 1022 \<le> e"
    and "of_int m - 1 / 2 < x / 2 powr (of_int e - 52)"
    and "x / 2 powr (of_int e - 52) < of_int m + 1 / 2"
    and "\<bar>(2::real) powr (of_int e - 52) * of_int m\<bar> < 2 ^ 1024"
  shows "round64 x = Fin (2 powr (of_int e - 52) * of_int m)"
proof -
  have q: "quantum x = 2 powr (of_int e - 52)"
    using quantum_binade [OF assms(1-4)] .
  have m: "rne (x / 2 powr (of_int e - 52)) = m"
    using rne_near [OF assms(5,6)] .
  show ?thesis
    using assms(1,7) by (simp add: round64_def Let_def q m)
qed

lemma round64_overflow:
  assumes "x \<noteq> 0" and "2 powr of_int e \<le> \<bar>x\<bar>" and "\<bar>x\<bar> < 2 powr (of_int e + 1)"
    and "- 1022 \<le> e"
    and "of_int m - 1 / 2 < x / 2 powr (of_int e - 52)"
    and "x / 2 powr (of_int e - 52) < of_int m + 1 / 2"
    and "2 ^ 1024 \<le> \<bar>(2::real) powr (of_int e - 52) * of_int m\<bar>"
  shows "round64 x = (if 0 < x then PInf else NInf)"
proof -
  have q: "quantum x = 2 powr (of_int e - 52)"
    using quantum_binade [OF assms(1-4)] .
  have m: "rne (x / 2 powr (of_int e - 52)) = m"
    using rne_near [OF assms(5,6)] .
  show ?thesis
    using assms(1,7) by (simp add: round64_def Let_def q m)
qed

lemma round64_minus_two: "round64 (- 2) = Fin (- 2)"
  using round64_eval [of "- 2" 1 "- (2 ^ 52)"] by (simp add: powr_minus)

lemma round64_two: "round64 2 = Fin 2"
  using round64_eval [of 2 1 "2 ^ 52"] by (simp add: powr_minus)

lemma round64_one: "round64 1 = Fin 1"
  using round64_eval [of 1 0 "2 ^ 52"] by (simp add: powr_minus)

lemma round64_big_diff: "round64 (2 ^ 100 - 1) = Fin (2 ^ 100)"
  using round64_eval [of "2 ^ 100 - 1" 99 "2 ^ 53"] by simp

lemma round64_big: "round64 (2 ^ 100) = Fin (2 ^ 100)"
  using round64_eval [of "2 ^ 100" 100 "2 ^ 52"] by simp

lemma round64_half_big: "round64 (2 ^ 99) = Fin (2 ^ 99)"
  using round64_eval [of "2 ^ 99" 99 "2 ^ 52"] by simp

lemma round64_one_plus_big: "round64 (1 + 2 ^ 99) = Fin (2 ^ 99)"
  using round64_eval [of "1 + 2 ^ 99" 99 "2 ^ 52"] by simp

lemma round64_small_quotient: "round64 (100 / 2 ^ 99) = Fin (100 / 2 ^ 99)"
  using round64_eval [of "100 / 2 ^ 99" "- 93" "25 * 2 ^ 48"] by (simp add: powr_minus)

lemma round64_near_hundred: "round64 (100 - 100 / 2 ^ 99) = Fin 100"
  using round64_eval [of "100 - 100 / 2 ^ 99" 6 "100 * 2 ^ 46"] by (simp add: powr_minus)

lemma round64_huge: "round64 (2 ^ 1023) = Fin (2 ^ 1023)"
  using round64_eval [of "2 ^ 1023" 1023 "2 ^ 52"] by simp

lemma round64_huge_diff: "round64 (2 ^ 1023 - 1) = Fin (2 ^ 1023)"
  using round64_eval [of "2 ^ 1023 - 1" 1022 "2 ^ 53"] by simp

lemma round64_huge_diff_minus: "round64 (1 - 2 ^ 1023) = Fin (- (2 ^ 1023))"
  using round64_eval [of "1 - 2 ^ 1023" 1022 "- (2 ^ 53)"] by simp

lemma round64_huge_sum: "round64 (2 ^ 1023 + 2 ^ 1023) = PInf"
  using round64_overflow [of "2 ^ 1023 + 2 ^ 1023" 1024 "2 ^ 52"] by simp

text \<open>The rounded operations on numbers that are not negative.\<close>

lemma nonneg_cases: "nonneg x \<longleftrightarrow> x = PInf \<or> (\<exists>a. x = Fin a \<and> 0 \<le> a)"
  by (cases x) (simp_all add: nonneg_def)

lemma rounded_nonneg: "nonneg x \<Longrightarrow> nonneg (rounded x)"
proof (cases x)
  case (Fin a)
  assume "nonneg x"
  with Fin have "0 \<le> a" by (simp add: nonneg_def)
  then show ?thesis using Fin by (simp add: rounded_def round64_nonneg)
qed (simp_all add: rounded_def)

lemma jadd_nonneg: "nonneg x \<Longrightarrow> nonneg y \<Longrightarrow> nonneg (jadd x y)"
  by (cases x; cases y) (simp_all add: nonneg_def)

lemma jdiv_nonneg_pos: "nonneg x \<Longrightarrow> 0 < p \<Longrightarrow> nonneg (jdiv x (Fin p))"
  by (cases x) (simp_all add: nonneg_def)

lemma dadd_nonneg: "nonneg x \<Longrightarrow> nonneg y \<Longrightarrow> nonneg (dadd x y)"
  unfolding dadd_def by (intro rounded_nonneg jadd_nonneg)

lemma ddiv_nonneg_pos: "nonneg x \<Longrightarrow> 0 < p \<Longrightarrow> nonneg (ddiv x (Fin p))"
  unfolding ddiv_def by (intro rounded_nonneg jdiv_nonneg_pos)

subsection \<open>Indicator engine\<close>


lemma loss_at_nonneg: "0 \<le> loss_at values i"
  by (simp add: loss_at_def Let_def)

lemma nonneg_jge_zero: "nonneg x \<Longrightarrow> jge x (Fin 0)"
  by (cases x) (simp_all add: nonneg_def)

lemma rsi_step_nonneg:
  assumes "1 \<le> i" and "i < int (length values)" and "nonneg g" and "nonneg l"
  shows "\<exists>g' l'. rsi_step values i (g, l) = (g', l') \<and> nonneg g' \<and> nonneg l'"
proof -
  let ?d = "values ! nat i - values ! nat (i - 1)"
  have diff: "dsub (elem_at values i) (elem_at values (i - 1)) = round64 ?d"
    using assms(1,2) by (simp add: elem_at_def dsub_def jsub_def rounded_def)
  from round64_cases [of ?d] show ?thesis
  proof (elim disjE exE)
    assume "round64 ?d = PInf"
    then show ?thesis
      using assms(3,4) dadd_nonneg [of g PInf]
      by (simp add: rsi_step_def diff Let_def nonneg_def)
  next
    assume "round64 ?d = NInf"
    then show ?thesis
      using assms(3,4) dadd_nonneg [of l PInf]
      by (simp add: rsi_step_def diff Let_def nonneg_def)
  next
    fix r
    assume r: "round64 ?d = Fin r"
    show ?thesis
    proof (cases "0 \<le> r")
      case True
      then show ?thesis
        using r assms(3,4) dadd_nonneg [of g "Fin r"]
        by (simp add: rsi_step_def diff Let_def nonneg_def)
    next
      case False
      then show ?thesis
        using r assms(3,4) dadd_nonneg [of l "Fin \<bar>r\<bar>"]
        by (simp add: rsi_step_def diff Let_def nonneg_def)
    qed
  qed
qed

lemma fold_rsi_step_nonneg:
  assumes "\<forall>i \<in> set js. 1 \<le> i \<and> i < int (length values)" and "nonneg g" and "nonneg l"
  shows "\<exists>g' l'. fold (rsi_step values) js (g, l) = (g', l') \<and> nonneg g' \<and> nonneg l'"
  using assms
proof (induction js arbitrary: g l)
  case Nil
  then show ?case by simp
next
  case (Cons j js)
  from Cons.prems obtain g1 l1 where
    step: "rsi_step values j (g, l) = (g1, l1)" and "nonneg g1" and "nonneg l1"
    using rsi_step_nonneg [of j "values" g l] by auto
  with Cons.IH [of g1 l1] Cons.prems(1) show ?case by simp
qed

lemma rsi_step_no_loss:
  assumes "1 \<le> i" and "i < int (length values)"
    and "values ! nat (i - 1) \<le> values ! nat i"
  shows "snd (rsi_step values i (g, l)) = l"
proof -
  let ?d = "values ! nat i - values ! nat (i - 1)"
  have diff: "dsub (elem_at values i) (elem_at values (i - 1)) = round64 ?d"
    using assms(1,2) by (simp add: elem_at_def dsub_def jsub_def rounded_def)
  have "jge (round64 ?d) (Fin 0)"
    using assms(3) by (intro nonneg_jge_zero round64_nonneg) simp
  then show ?thesis by (simp add: rsi_step_def diff Let_def)
qed

lemma fold_rsi_step_no_loss:
  assumes "\<forall>i \<in> set js. 1 \<le> i \<and> i < int (length values)
             \<and> values ! nat (i - 1) \<le> values ! nat i"
  shows "snd (fold (rsi_step values) js (g, l)) = l"
  using assms
proof (induction js arbitrary: g l)
  case Nil
  then show ?case by simp
next
  case (Cons j js)
  obtain g1 l1 where step: "rsi_step values j (g, l) = (g1, l1)"
    by (cases "rsi_step values j (g, l)")
  have "l1 = l"
    using rsi_step_no_loss [of j "values" g l] Cons.prems step by simp
  with Cons.IH [of g1 l1] Cons.prems step show ?case by simp
qed

lemma rsi_averages_nonneg:
  assumes "0 < period" and "period + 1 \<le> int (length values)"
  shows "\<exists>a b. rsi_averages values period = (a, b) \<and> nonneg a \<and> nonneg b"
proof -
  let ?js = "[int (length values) - period..int (length values) - 1]"
  have range: "\<forall>i \<in> set ?js. 1 \<le> i \<and> i < int (length values)"
    using assms by auto
  have zero: "nonneg (Fin 0)" by (simp add: nonneg_def)
  from fold_rsi_step_nonneg [OF range zero zero]
  obtain g l where "rsi_sums values period = (g, l)" and "nonneg g" and "nonneg l"
    unfolding rsi_sums_def by blast
  then show ?thesis
    using assms(1) by (simp add: rsi_averages_def ddiv_nonneg_pos)
qed

text \<open>The last three operations of \<open>computeRSI\<close>, on averages that are not negative.\<close>

lemma rsi_ratio:
  assumes "nonneg a" and "nonneg b" and "\<not> jeq b (Fin 0)"
  shows "(a = PInf \<and> b = PInf \<and> ddiv a b = NaN) \<or> nonneg (ddiv a b)"
proof -
  from assms(2,3) consider "b = PInf" | l where "b = Fin l" "0 < l"
    by (cases b) (auto simp: nonneg_def)
  then show ?thesis
  proof cases
    case 1
    from assms(1) consider "a = PInf" | r where "a = Fin r" by (auto simp: nonneg_cases)
    then show ?thesis
    proof cases
      case 1
      with \<open>b = PInf\<close> show ?thesis by (simp add: ddiv_def rounded_def)
    next
      case 2
      with \<open>b = PInf\<close> show ?thesis
        by (simp add: ddiv_def rounded_def round64_zero nonneg_def)
    qed
  next
    case 2
    then have "nonneg (jdiv a b)"
      using assms(1) jdiv_nonneg_pos [of a l] by simp
    then show ?thesis
      unfolding ddiv_def by (intro disjI2 rounded_nonneg)
  qed
qed

lemma rsi_one_plus:
  assumes "nonneg rs"
  shows "dadd (Fin 1) rs = PInf \<or> (\<exists>s. dadd (Fin 1) rs = Fin s \<and> 1 \<le> s)"
proof -
  from assms consider "rs = PInf" | r where "rs = Fin r" "0 \<le> r"
    by (auto simp: nonneg_cases)
  then show ?thesis
  proof cases
    case 1
    then show ?thesis by (simp add: dadd_def rounded_def)
  next
    case 2
    then show ?thesis
      using round64_ge_one [of "1 + r"] by (simp add: dadd_def rounded_def)
  qed
qed

lemma rsi_quotient:
  assumes "s = PInf \<or> (\<exists>t. s = Fin t \<and> 1 \<le> t)"
  shows "\<exists>q. ddiv (Fin 100) s = Fin q \<and> 0 \<le> q \<and> q \<le> 100"
proof -
  from assms consider "s = PInf" | t where "s = Fin t" "1 \<le> t" by blast
  then show ?thesis
  proof cases
    case 1
    then show ?thesis by (simp add: ddiv_def rounded_def round64_zero)
  next
    case 2
    then have "0 \<le> 100 / t" and "100 / t \<le> 100"
      by (simp_all add: field_simps)
    from round64_le_hundred [OF this] show ?thesis
      using 2 by (simp add: ddiv_def rounded_def)
  qed
qed

lemma rsi_complement:
  assumes "0 \<le> q" and "q \<le> 100"
  shows "\<exists>r. dsub (Fin 100) (Fin q) = Fin r \<and> 0 \<le> r \<and> r \<le> 100"
  using round64_le_hundred [of "100 - q"] assms
  by (simp add: dsub_def jsub_def rounded_def)

lemma rsi_tail:
  assumes "nonneg a" and "nonneg b" and "\<not> jeq b (Fin 0)"
  shows "(a = PInf \<and> b = PInf
            \<and> dsub (Fin 100) (ddiv (Fin 100) (dadd (Fin 1) (ddiv a b))) = NaN)
         \<or> (\<exists>r. dsub (Fin 100) (ddiv (Fin 100) (dadd (Fin 1) (ddiv a b))) = Fin r
                 \<and> 0 \<le> r \<and> r \<le> 100)"
proof -
  from rsi_ratio [OF assms] show ?thesis
  proof
    assume "a = PInf \<and> b = PInf \<and> ddiv a b = NaN"
    then show ?thesis
      by (simp add: dadd_def ddiv_def dsub_def jsub_def rounded_def)
  next
    assume "nonneg (ddiv a b)"
    from rsi_quotient [OF rsi_one_plus [OF this]]
    obtain q where "ddiv (Fin 100) (dadd (Fin 1) (ddiv a b)) = Fin q" "0 \<le> q" "q \<le> 100"
      by blast
    then show ?thesis using rsi_complement [of q] by simp
  qed
qed

lemma computeRSI_bounds:
  assumes "0 < period" and "period + 1 \<le> int (length values)"
  shows "(\<exists>r. computeRSI values period = Some (Fin r) \<and> 0 \<le> r \<and> r \<le> 100)
         \<or> (rsi_averages values period = (PInf, PInf) \<and> computeRSI values period = Some NaN)"
proof -
  from rsi_averages_nonneg [OF assms] obtain a b where
    avg: "rsi_averages values period = (a, b)" and a: "nonneg a" and b: "nonneg b"
    by blast
  show ?thesis
  proof (cases "jeq b (Fin 0)")
    case True
    then have "computeRSI values period = Some (Fin 100)"
      using assms(2) by (simp add: computeRSI_def avg)
    then show ?thesis by simp
  next
    case False
    then have "computeRSI values period
                 = Some (dsub (Fin 100) (ddiv (Fin 100) (dadd (Fin 1) (ddiv a b))))"
      using assms(2) by (simp add: computeRSI_def avg)
    with rsi_tail [OF a b False] avg show ?thesis by auto
  qed
qed

lemma computeRSI_no_loss:
  assumes "0 < period" and "period + 1 \<le> int (length values)"
    and "avg_loss values period = 0"
  shows "computeRSI values period = Some (Fin 100)"
proof -
  let ?js = "[int (length values) - period..int (length values) - 1]"
  have "sum_list (map (loss_at values) ?js) = 0"
    using assms(1,3) by (simp add: avg_loss_def)
  then have "\<forall>i \<in> set ?js. loss_at values i = 0"
    using sum_list_nonneg_eq_0_iff [of "map (loss_at values) ?js"] loss_at_nonneg
    by auto
  then have rise: "\<forall>i \<in> set ?js. values ! nat (i - 1) \<le> values ! nat i"
    by (auto simp: loss_at_def Let_def split: if_splits)
  have "\<forall>i \<in> set ?js. 1 \<le> i \<and> i < int (length values)"
    using assms(1,2) by auto
  with rise have "snd (rsi_sums values period) = Fin 0"
    unfolding rsi_sums_def by (intro fold_rsi_step_no_loss) blast
  then obtain g where "rsi_sums values period = (g, Fin 0)"
    by (cases "rsi_sums values period") simp
  then have "rsi_averages values period = (ddiv g (Fin (real_of_int period)), Fin 0)"
    using assms(1) by (simp add: rsi_averages_def ddiv_def rounded_def round64_zero)
  then show ?thesis
    using assms(2) by (simp add: computeRSI_def)
qed

text \<open>
  C4, as the code has it. With fewer than \<open>period + 1\<close> values \<open>computeRSI\<close> is absent. For
  a positive period and at least \<open>period + 1\<close> values the result is a finite value in
  [0,100], unless both averages have overflowed to \<open>Infinity\<close>, where it is \<open>NaN\<close>; and it
  is 100 whenever the average loss over the last \<open>period\<close> differences is 0. The converse
  does not hold in binary64, and a period of 0 is not covered: see the counterexample.
\<close>

theorem rsi_range:
  "(int (length values) < period + 1 \<longrightarrow> computeRSI values period = None)
   \<and> (0 < period \<and> period + 1 \<le> int (length values) \<longrightarrow>
        ((\<exists>r. computeRSI values period = Some (Fin r) \<and> 0 \<le> r \<and> r \<le> 100)
          \<or> (rsi_averages values period = (PInf, PInf)
              \<and> computeRSI values period = Some NaN))
        \<and> (avg_loss values period = 0 \<longrightarrow> computeRSI values period = Some (Fin 100)))"
  using computeRSI_bounds [of period "values"] computeRSI_no_loss [of period "values"]
  by (simp add: computeRSI_def)

theorem rsi_range_witness:
  "0 < (2::int) \<and> 2 + 1 \<le> int (length [1, 3, 2 :: real])
   \<and> (\<exists>r. computeRSI [1, 3, 2] 2 = Some (Fin r) \<and> 0 \<le> r \<and> r \<le> 100)
   \<and> rsi_averages [1, 3, 2] 2 \<noteq> (PInf, PInf)
   \<and> avg_loss [1, 2, 3] 2 = 0 \<and> computeRSI [1, 2, 3] 2 = Some (Fin 100)
   \<and> int (length [1 :: real]) < 2 + 1 \<and> computeRSI [1] 2 = None"
proof -
  have len: "0 < (2::int) \<and> 2 + 1 \<le> int (length [1, 3, 2 :: real])" by simp
  have half: "round64 (1 / 2) = Fin (1 / 2)"
    using round64_eval [of "1 / 2" "- 1" "2 ^ 52"] by (simp add: powr_minus)
  have minus: "round64 (- 1) = Fin (- 1)"
    using round64_eval [of "- 1" 0 "- (2 ^ 52)"] by (simp add: powr_minus)
  have "rsi_sums [1, 3, 2] 2 = (Fin 2, Fin 1)"
    by (simp add: rsi_sums_def rsi_step_def elem_at_def dsub_def dadd_def jsub_def
        rounded_def round64_two round64_one minus upto_rec1)
  then have "rsi_averages [1, 3, 2] 2 = (Fin 1, Fin (1 / 2))"
    by (simp add: rsi_averages_def ddiv_def rounded_def round64_one half)
  then have fin: "rsi_averages [1, 3, 2] 2 \<noteq> (PInf, PInf)" by simp
  have zero: "avg_loss [1, 2, 3] 2 = 0"
    by (simp add: avg_loss_def loss_at_def upto_rec1)
  have len': "0 < (2::int) \<and> 2 + 1 \<le> int (length [1, 2, 3 :: real])" by simp
  have short: "int (length [1 :: real]) < 2 + 1" by simp
  from rsi_range [of "[1, 3, 2]" 2] len fin
  have "\<exists>r. computeRSI [1, 3, 2] 2 = Some (Fin r) \<and> 0 \<le> r \<and> r \<le> 100" by blast
  moreover from rsi_range [of "[1, 2, 3]" 2] len' zero
  have "computeRSI [1, 2, 3] 2 = Some (Fin 100)" by blast
  moreover from rsi_range [of "[1]" 2] short
  have "computeRSI [1] 2 = None" by blast
  ultimately show ?thesis using len fin zero short by blast
qed

text \<open>
  The claim fails in three places. With period 0 a series of one value has \<open>period + 1\<close>
  values and the result is \<open>NaN\<close>. With period 2 the series 3, 1, \<open>2^100\<close> has an average
  loss of 1, yet the result is exactly 100: the ratio of the averages is \<open>2^99\<close>, adding 1
  to it does not change it, and \<open>100 - 100 / 2^99\<close> rounds to 100. With period 4 the
  series 1, \<open>2^1023\<close>, 1, \<open>2^1023\<close>, 1 makes both sums overflow, and the result is \<open>NaN\<close>.
\<close>

theorem rsi_hundred_counterexample:
  "computeRSI [5] 0 = Some NaN
   \<and> avg_loss [3, 1, 2 ^ 100] 2 = 1
   \<and> computeRSI [3, 1, 2 ^ 100] 2 = Some (Fin 100)
   \<and> computeRSI [1, 2 ^ 1023, 1, 2 ^ 1023, 1] 4 = Some NaN"
proof -
  have idx4: "[int (length [1, 2 ^ 1023, 1, 2 ^ 1023, 1 :: real]) - 4
                ..int (length [1, 2 ^ 1023, 1, 2 ^ 1023, 1 :: real]) - 1] = [1, 2, 3, 4]"
    by (simp add: upto_rec1)
  have s1: "rsi_step [1, 2 ^ 1023, 1, 2 ^ 1023, 1] 1 (Fin 0, Fin 0) = (Fin (2 ^ 1023), Fin 0)"
    using round64_huge_diff round64_huge
    by (simp add: rsi_step_def elem_at_def dsub_def dadd_def jsub_def rounded_def)
  have s2: "rsi_step [1, 2 ^ 1023, 1, 2 ^ 1023, 1] 2 (Fin (2 ^ 1023), Fin 0)
              = (Fin (2 ^ 1023), Fin (2 ^ 1023))"
    using round64_huge_diff_minus round64_huge
    by (simp add: rsi_step_def elem_at_def dsub_def dadd_def jsub_def rounded_def)
  have s3: "rsi_step [1, 2 ^ 1023, 1, 2 ^ 1023, 1] 3 (Fin (2 ^ 1023), Fin (2 ^ 1023))
              = (PInf, Fin (2 ^ 1023))"
    using round64_huge_diff round64_huge_sum
    by (simp add: rsi_step_def elem_at_def dsub_def dadd_def jsub_def rounded_def)
  have s4: "rsi_step [1, 2 ^ 1023, 1, 2 ^ 1023, 1] 4 (PInf, Fin (2 ^ 1023)) = (PInf, PInf)"
    using round64_huge_diff_minus round64_huge_sum
    by (simp add: rsi_step_def elem_at_def dsub_def dadd_def jsub_def rounded_def)
  have "rsi_sums [1, 2 ^ 1023, 1, 2 ^ 1023, 1] 4 = (PInf, PInf)"
    unfolding rsi_sums_def idx4 using s1 s2 s3 s4 by simp
  then have "rsi_averages [1, 2 ^ 1023, 1, 2 ^ 1023, 1] 4 = (PInf, PInf)"
    by (simp add: rsi_averages_def ddiv_def rounded_def)
  then have over: "computeRSI [1, 2 ^ 1023, 1, 2 ^ 1023, 1] 4 = Some NaN"
    by (simp add: computeRSI_def ddiv_def dadd_def dsub_def jsub_def rounded_def)
  have nan: "computeRSI [5] 0 = Some NaN"
    by (simp add: computeRSI_def rsi_averages_def rsi_sums_def ddiv_def dadd_def dsub_def
        jsub_def rounded_def)
  have loss: "avg_loss [3, 1, 2 ^ 100] 2 = 1"
    by (simp add: avg_loss_def loss_at_def upto_rec1)
  have idx: "[int (length [3, 1, 2 ^ 100 :: real]) - 2..int (length [3, 1, 2 ^ 100 :: real]) - 1]
               = [1, 2]"
    by (simp add: upto_rec1)
  have step1: "rsi_step [3, 1, 2 ^ 100] 1 (Fin 0, Fin 0) = (Fin 0, Fin 2)"
    using round64_minus_two round64_two
    by (simp add: rsi_step_def elem_at_def dsub_def dadd_def jsub_def rounded_def)
  have step2: "rsi_step [3, 1, 2 ^ 100] 2 (Fin 0, Fin 2) = (Fin (2 ^ 100), Fin 2)"
    using round64_big_diff round64_big
    by (simp add: rsi_step_def elem_at_def dsub_def dadd_def jsub_def rounded_def)
  have sums: "rsi_sums [3, 1, 2 ^ 100] 2 = (Fin (2 ^ 100), Fin 2)"
    unfolding rsi_sums_def idx using step1 step2 by simp
  have avg: "rsi_averages [3, 1, 2 ^ 100] 2 = (Fin (2 ^ 99), Fin 1)"
    unfolding rsi_averages_def sums
    using round64_half_big round64_one by (simp add: ddiv_def rounded_def)
  have rs: "ddiv (Fin (2 ^ 99)) (Fin 1) = Fin (2 ^ 99)"
    using round64_half_big by (simp add: ddiv_def rounded_def)
  have plus: "dadd (Fin 1) (Fin (2 ^ 99)) = Fin (2 ^ 99)"
    using round64_one_plus_big by (simp add: dadd_def rounded_def)
  have quot: "ddiv (Fin 100) (Fin (2 ^ 99)) = Fin (100 / 2 ^ 99)"
    using round64_small_quotient by (simp add: ddiv_def rounded_def)
  have last: "dsub (Fin 100) (Fin (100 / 2 ^ 99)) = Fin 100"
    using round64_near_hundred by (simp add: dsub_def jsub_def rounded_def)
  have "computeRSI [3, 1, 2 ^ 100] 2
          = Some (dsub (Fin 100) (ddiv (Fin 100) (dadd (Fin 1) (ddiv (Fin (2 ^ 99)) (Fin 1)))))"
    unfolding computeRSI_def avg by (simp add: Let_def)
  then have "computeRSI [3, 1, 2 ^ 100] 2 = Some (Fin 100)"
    unfolding rs plus quot last .
  with nan loss over show ?thesis by blast
qed

text \<open>
  C5. When the series is shorter than the period, \<open>computeSMA\<close> and \<open>computeEMA\<close> are
  absent; MACD is absent exactly when one of its two EMA operands is; and an absent
  indicator is stored as the text \<open>N/A\<close>, which is not the text of any number. On the
  page the RSI and MACD cells show that text, but the two moving-average cells pass it
  through \<open>Number\<close> and \<open>formatCurrency\<close>: an absent average is shown as the currency
  format of 0, exactly as an average of 0 would be.
\<close>

theorem absent_indicators:
  "(int (length S) < p \<longrightarrow> computeSMA S p = None \<and> computeEMA S p = None)
   \<and> (macd_of S = None \<longleftrightarrow> computeEMA S 12 = None \<or> computeEMA S 26 = None)
   \<and> (computeSMA S 50 = None \<longrightarrow> movingAvg50 (indicators_of S) = NA)
   \<and> (computeSMA S 200 = None \<longrightarrow> movingAvg200 (indicators_of S) = NA)
   \<and> (macd_of S = None \<longrightarrow> macd (indicators_of S) = NA)
   \<and> (computeRSI S 14 = None \<longrightarrow> rsi (indicators_of S) = NA)
   \<and> NA \<noteq> ToFixed x d
   \<and> (computeRSI S 14 = None \<longrightarrow>
         rsi_cell (render_indicators numberOf rate (indicators_of S)) = Text NA)
   \<and> (macd_of S = None \<longrightarrow>
         macd_cell (render_indicators numberOf rate (indicators_of S)) = Text NA)
   \<and> (computeSMA S 50 = None \<longrightarrow>
         movingAvg50_cell (render_indicators numberOf rate (indicators_of S)) = Currency (Fin 0))
   \<and> (computeSMA S 200 = None \<longrightarrow>
         movingAvg200_cell (render_indicators numberOf rate (indicators_of S)) = Currency (Fin 0))
   \<and> formatCurrency rate (Fin 0) = Currency (Fin 0)"
  by (simp add: computeSMA_def computeEMA_def macd_of_def indicators_of_def
      show_indicator_def render_indicators_def text_number_def formatCurrency_def Let_def
      split: option.splits)

theorem absent_indicators_witness:
  "int (length [1, 2 :: real]) < 12 \<and> computeSMA [1, 2] 12 = None \<and> computeEMA [1, 2] 12 = None
   \<and> macd_of [1, 2] = None \<and> movingAvg50 (indicators_of [1, 2]) = NA
   \<and> movingAvg200 (indicators_of [1, 2]) = NA \<and> macd (indicators_of [1, 2]) = NA
   \<and> rsi (indicators_of [1, 2]) = NA
   \<and> computeSMA [1, 2] 50 = None \<and> computeSMA [1, 2] 200 = None
   \<and> computeRSI [1, 2] 14 = None
   \<and> rsi_cell (render_indicators (\<lambda>x d. x) None (indicators_of [1, 2])) = Text NA
   \<and> macd_cell (render_indicators (\<lambda>x d. x) None (indicators_of [1, 2])) = Text NA
   \<and> movingAvg50_cell (render_indicators (\<lambda>x d. x) None (indicators_of [1, 2]))
       = Currency (Fin 0)
   \<and> movingAvg200_cell (render_indicators (\<lambda>x d. x) None (indicators_of [1, 2]))
       = Currency (Fin 0)"
proof -
  have short: "int (length [1, 2 :: real]) < 12" "int (length [1, 2 :: real]) < 50"
    "int (length [1, 2 :: real]) < 200"
    by simp_all
  have rsi: "computeRSI [1, 2] 14 = None" by (simp add: computeRSI_def)
  note t12 = absent_indicators [of "[1, 2]" 12 _ _ "\<lambda>x d. x" None]
  note t50 = absent_indicators [of "[1, 2]" 50 _ _ "\<lambda>x d. x" None]
  note t200 = absent_indicators [of "[1, 2]" 200 _ _ "\<lambda>x d. x" None]
  have a12: "computeSMA [1, 2] 12 = None \<and> computeEMA [1, 2] 12 = None"
    using t12 short(1) by blast
  have a50: "computeSMA [1, 2] 50 = None" using t50 short(2) by blast
  have a200: "computeSMA [1, 2] 200 = None" using t200 short(3) by blast
  have m: "macd_of [1, 2] = None" using t12 a12 by blast
  show ?thesis
    using short(1) a12 a50 a200 m rsi t12 by blast
qed






text \<open>The worked example of the specification: fifteen rising closes.\<close>

lemma spec_example_indicators:
  "computeRSI [100, 101, 102, 103, 104, 105, 106, 107, 108, 109, 110, 111, 112, 113, 114] 14
     = Some (Fin 100)
   \<and> computeSMA [100, 101, 102, 103, 104, 105, 106, 107, 108, 109, 110, 111, 112, 113, 114] 5
     = Some (Fin 112)"
proof -
  let ?closes = "[100, 101, 102, 103, 104, 105, 106, 107, 108, 109, 110, 111, 112, 113, 114 :: real]"
  have "avg_loss ?closes 14 = 0"
    by (simp add: avg_loss_def loss_at_def upto_rec1)
  then have "computeRSI ?closes 14 = Some (Fin 100)"
    by (intro computeRSI_no_loss) simp_all
  then show ?thesis
    by (simp add: computeSMA_def slice_from_def)
qed

subsection \<open>Derived forecast\<close>

lemma foldl_plus_sum_list: "foldl (\<lambda>a b. a + b) (a :: real) xs = a + sum_list xs"
  by (induction xs arbitrary: a) simp_all

lemma foldl_squares:
  "foldl (\<lambda>sum p. jadd sum (jpow2 (jsub (Fin p) (Fin m)))) (Fin s) xs
     = Fin (s + sum_list (map (\<lambda>x. (x - m) ^ 2) xs))"
  by (induction xs arbitrary: s) (simp_all add: jsub_def)

lemma variance_of_nonempty:
  "preds \<noteq> [] \<Longrightarrow> variance_of preds = Fin (population_variance preds)"
  by (simp add: variance_of_def mean_of_def population_variance_def Let_def
      foldl_plus_sum_list foldl_squares)

lemma population_variance_nonneg: "0 \<le> population_variance xs"
  unfolding population_variance_def Let_def
  by (intro divide_nonneg_nonneg sum_list_nonneg) auto

lemma clamped_confidence_finite:
  assumes "preds \<noteq> []" and "0 < price"
  shows "clamped_confidence preds price
           = Fin (max 50 (min 95 (100 - sqrt (population_variance preds) / price * 100)))"
  using assms population_variance_nonneg [of preds]
  by (simp add: clamped_confidence_def variance_of_nonempty jsub_def jmin_def jmax_def
      max_def min_def)

text \<open>
  The confidence of \<open>runPrediction\<close> is the clamp of the specification: a finite value in
  [50,95], equal to 50 when there is no prediction or the price is not positive.
\<close>

lemma runPrediction_confidence_clamped:
  "\<exists>c. runPrediction_confidence preds price = Fin c \<and> 50 \<le> c \<and> c \<le> 95
       \<and> c = (if preds \<noteq> [] \<and> 0 < price
              then max 50 (min 95 (100 - sqrt (population_variance preds) / price * 100))
              else 50)"
  by (simp add: runPrediction_confidence_def clamped_confidence_finite)

text \<open>
  C2. The dashboard panel computes the same confidence without the guard of
  \<open>runPrediction\<close>: with no prediction, or with price 0 and equal predictions, its
  confidence is \<open>NaN\<close>, where \<open>runPrediction\<close> gives 50.
\<close>

theorem generatePrediction_confidence_unguarded:
  "generatePrediction_confidence 150 [] = NaN
   \<and> generatePrediction_confidence 0 [5, 5, 5] = NaN
   \<and> runPrediction_confidence [] 150 = Fin 50
   \<and> runPrediction_confidence [5, 5, 5] 0 = Fin 50"
  by (simp add: generatePrediction_confidence_def runPrediction_confidence_def
      clamped_confidence_def variance_of_def mean_of_def jsub_def jmin_def jmax_def)

text \<open>
  C3. The trend of \<open>runPrediction\<close> is Bullish exactly when there is a first prediction
  and it is greater than the current price; otherwise it is Bearish, in particular when
  the first prediction equals the current price.
\<close>

theorem trend_rule:
  "(trend (runPrediction latest result) = ''Bullish''
      \<longleftrightarrow> (\<exists>p ps. predictions result = Some (p # ps)
                  \<and> currentPrice (runPrediction latest result) < p))
   \<and> (trend (runPrediction latest result) \<noteq> ''Bullish''
        \<longrightarrow> trend (runPrediction latest result) = ''Bearish'')
   \<and> (predictions result = Some (p # ps) \<and> p = currentPrice (runPrediction latest result)
        \<longrightarrow> trend (runPrediction latest result) = ''Bearish'')"
  by (auto simp: runPrediction_def Let_def split: option.splits list.splits)

theorem trend_rule_witness:
  "predictions \<lparr>symbol = ''AAPL'', current_price = 99, predictions = Some [100, 103]\<rparr>
     = Some (100 # [103])
   \<and> 100 = currentPrice (runPrediction (Some 100)
        \<lparr>symbol = ''AAPL'', current_price = 99, predictions = Some [100, 103]\<rparr>)
   \<and> trend (runPrediction (Some 100)
        \<lparr>symbol = ''AAPL'', current_price = 99, predictions = Some [100, 103]\<rparr>) = ''Bearish''
   \<and> trend (runPrediction (Some 100)
        \<lparr>symbol = ''AAPL'', current_price = 99, predictions = Some [102, 103]\<rparr>) = ''Bullish''"
  using trend_rule [of "Some 100"
      "\<lparr>symbol = ''AAPL'', current_price = 99, predictions = Some [100, 103]\<rparr>" 100 "[103]"]
    trend_rule [of "Some 100"
      "\<lparr>symbol = ''AAPL'', current_price = 99, predictions = Some [102, 103]\<rparr>" 102 "[103]"]
  by (simp add: runPrediction_def)

text \<open>
  The worked example of the specification: price 100 and predictions 102, 103, 101.
\<close>

lemma spec_example_forecast:
  "runPrediction (Some 100) \<lparr> symbol = ''AAPL'', current_price = 100,
                               predictions = Some [102, 103, 101] \<rparr>
     = \<lparr> currentPrice = 100, trend = ''Bullish'', changePercent = 2, confidence = Fin 95 \<rparr>"
proof -
  have pv: "population_variance [102, 103, 101] = 2 / 3"
    by (simp add: population_variance_def Let_def power2_eq_square)
  have "sqrt (2 / 3) \<le> 1" by simp
  then have "max 50 (min 95 (100 - sqrt (2 / 3))) = (95 :: real)" by linarith
  then have "clamped_confidence [102, 103, 101] 100 = Fin 95"
    by (simp add: clamped_confidence_finite pv)
  then show ?thesis
    by (simp add: runPrediction_def runPrediction_confidence_def Let_def)
qed

subsection \<open>Alert synthesizer\<close>

lemma price_step_types:
  "map (\<lambda>a. (alert_type a, stock a)) (built (price_step sv s st)) =
     map (\<lambda>a. (alert_type a, stock a)) (built st)
       @ (if getStockData sv s \<noteq> None then [(Price, s)] else [])"
  by (simp add: price_step_def push_def priceAlert_def Let_def split: option.splits)

lemma sentiment_step_types:
  "map (\<lambda>a. (alert_type a, stock a)) (built (sentiment_step sv s st)) =
     map (\<lambda>a. (alert_type a, stock a)) (built st)
       @ (if emits sv s then [(Sentiment, s)] else [])"
  by (simp add: sentiment_step_def push_def sentimentAlert_def emits_def Let_def
      split: option.splits)

lemma prediction_step_types:
  "map (\<lambda>a. (alert_type a, stock a)) (built (prediction_step sv s st)) =
     map (\<lambda>a. (alert_type a, stock a)) (built st)
       @ (if predict sv s \<noteq> None then [(Prediction, s)] else [])"
  by (simp add: prediction_step_def push_def predictionAlert_def Let_def split: option.splits)

lemma fold_price_step_types:
  "map (\<lambda>a. (alert_type a, stock a)) (built (fold (price_step sv) syms st)) =
     map (\<lambda>a. (alert_type a, stock a)) (built st)
       @ map (Pair Price) (filter (\<lambda>s. getStockData sv s \<noteq> None) syms)"
  by (induction syms arbitrary: st) (simp_all add: price_step_types)

lemma fold_sentiment_step_types:
  "map (\<lambda>a. (alert_type a, stock a)) (built (fold (sentiment_step sv) syms st)) =
     map (\<lambda>a. (alert_type a, stock a)) (built st)
       @ map (Pair Sentiment) (filter (emits sv) syms)"
  by (induction syms arbitrary: st) (simp_all add: sentiment_step_types)

lemma fold_prediction_step_types:
  "map (\<lambda>a. (alert_type a, stock a)) (built (fold (prediction_step sv) syms st)) =
     map (\<lambda>a. (alert_type a, stock a)) (built st)
       @ map (Pair Prediction) (filter (\<lambda>s. predict sv s \<noteq> None) syms)"
  by (induction syms arbitrary: st) (simp_all add: prediction_step_types)

lemma price_step_requests:
  "requests (price_step sv s st) = requests st @ [GetStockData s]"
  by (simp add: price_step_def push_def Let_def split: option.splits)

lemma sentiment_step_requests:
  "requests (sentiment_step sv s st) = requests st @ [GetLatestNews s]"
  by (simp add: sentiment_step_def push_def Let_def split: option.splits)

lemma prediction_step_requests:
  "requests (prediction_step sv s st) = requests st @ [Predict s]"
  by (simp add: prediction_step_def push_def Let_def split: option.splits)

lemma fold_price_step_requests:
  "requests (fold (price_step sv) syms st) = requests st @ map GetStockData syms"
  by (induction syms arbitrary: st) (simp_all add: price_step_requests)

lemma fold_sentiment_step_requests:
  "requests (fold (sentiment_step sv) syms st) = requests st @ map GetLatestNews syms"
  by (induction syms arbitrary: st) (simp_all add: sentiment_step_requests)

lemma fold_prediction_step_requests:
  "requests (fold (prediction_step sv) syms st) = requests st @ map Predict syms"
  by (induction syms arbitrary: st) (simp_all add: prediction_step_requests)

lemma synthesize_types:
  "map (\<lambda>a. (alert_type a, stock a)) (built (synthesize sv ns now wl)) =
     (if priceAlerts ns
      then map (Pair Price) (filter (\<lambda>s. getStockData sv s \<noteq> None) (batch wl)) else [])
     @ (if sentimentAlerts ns \<or> newsAlerts ns
        then map (Pair Sentiment) (filter (emits sv) (take 6 (batch wl))) else [])
     @ (if predictionAlerts ns
        then map (Pair Prediction) (filter (\<lambda>s. predict sv s \<noteq> None) (take 3 (batch wl)))
        else [])"
  by (simp add: synthesize_def Let_def fold_price_step_types fold_sentiment_step_types
      fold_prediction_step_types)

lemma synthesize_requests:
  "requests (synthesize sv ns now wl) =
     (if priceAlerts ns then map GetStockData (batch wl) else [])
     @ (if sentimentAlerts ns \<or> newsAlerts ns then map GetLatestNews (take 6 (batch wl)) else [])
     @ (if predictionAlerts ns then map Predict (take 3 (batch wl)) else [])"
  by (simp add: synthesize_def Let_def fold_price_step_requests fold_sentiment_step_requests
      fold_prediction_step_requests)

lemma set_insert_by: "set (insert_by cmp x xs) = insert x (set xs)"
  by (induction xs) auto

lemma set_sort_by: "set (sort_by cmp xs) = set xs"
  unfolding sort_by_def by (induction xs) (simp_all add: set_insert_by)

lemma mset_insert_by: "mset (insert_by cmp x xs) = add_mset x (mset xs)"
  by (induction xs) auto

lemma mset_sort_by: "mset (sort_by cmp xs) = mset xs"
  unfolding sort_by_def by (induction xs) (simp_all add: mset_insert_by)

lemma alert_of_kind:
  "(\<exists>a \<in> set (loadAlerts sv ns now wl). alert_type a = k \<and> stock a = s)
     \<longleftrightarrow> (k, s) \<in> set (map (\<lambda>a. (alert_type a, stock a)) (built (synthesize sv ns now wl)))"
  by (auto simp: loadAlerts_def set_sort_by image_iff)

text \<open>Every sentiment alert that a run builds obeys the sentiment rule.\<close>

lemma sentimentAlert_rule:
  "getLatestNews sv s = Some news \<Longrightarrow> sentimentAlert sv s news nid = Some a
     \<Longrightarrow> alert_type a = Sentiment \<and> sentiment_rule sv a"
  by (auto simp: sentimentAlert_def sentiment_rule_def Let_def split: if_splits)

lemma price_step_rule:
  assumes "\<forall>a \<in> set (built st). alert_type a = Sentiment \<longrightarrow> sentiment_rule sv a"
  shows "\<forall>a \<in> set (built (price_step sv s st)). alert_type a = Sentiment \<longrightarrow> sentiment_rule sv a"
  using assms
  by (auto simp: price_step_def push_def priceAlert_def Let_def split: option.splits)

lemma prediction_step_rule:
  assumes "\<forall>a \<in> set (built st). alert_type a = Sentiment \<longrightarrow> sentiment_rule sv a"
  shows "\<forall>a \<in> set (built (prediction_step sv s st)).
           alert_type a = Sentiment \<longrightarrow> sentiment_rule sv a"
  using assms
  by (auto simp: prediction_step_def push_def predictionAlert_def Let_def split: option.splits)

lemma sentiment_step_rule:
  assumes "\<forall>a \<in> set (built st). alert_type a = Sentiment \<longrightarrow> sentiment_rule sv a"
  shows "\<forall>a \<in> set (built (sentiment_step sv s st)).
           alert_type a = Sentiment \<longrightarrow> sentiment_rule sv a"
  using assms
  by (auto simp: sentiment_step_def push_def Let_def split: option.splits
      dest: sentimentAlert_rule)

lemma fold_step_rule:
  assumes step: "\<And>s st. \<forall>a \<in> set (built st). alert_type a = Sentiment \<longrightarrow> sentiment_rule sv a
            \<Longrightarrow> \<forall>a \<in> set (built (f s st)). alert_type a = Sentiment \<longrightarrow> sentiment_rule sv a"
    and "\<forall>a \<in> set (built st). alert_type a = Sentiment \<longrightarrow> sentiment_rule sv a"
  shows "\<forall>a \<in> set (built (fold f syms st)). alert_type a = Sentiment \<longrightarrow> sentiment_rule sv a"
  using assms(2)
proof (induction syms arbitrary: st)
  case Nil
  then show ?case by simp
next
  case (Cons s syms)
  from step [OF Cons.prems] have "\<forall>a \<in> set (built (f s st)).
      alert_type a = Sentiment \<longrightarrow> sentiment_rule sv a" .
  from Cons.IH [OF this] show ?case by simp
qed

lemma synthesize_rule:
  "\<forall>a \<in> set (built (synthesize sv ns now wl)). alert_type a = Sentiment \<longrightarrow> sentiment_rule sv a"
proof -
  let ?P = "\<lambda>st. \<forall>a \<in> set (built st). alert_type a = Sentiment \<longrightarrow> sentiment_rule sv a"
  let ?st0 = "\<lparr> nextId = now, built = [], requests = [] \<rparr>"
  let ?st1 = "if priceAlerts ns then fold (price_step sv) (batch wl) ?st0 else ?st0"
  let ?st2 = "if sentimentAlerts ns \<or> newsAlerts ns
              then fold (sentiment_step sv) (take 6 (batch wl)) ?st1 else ?st1"
  let ?st3 = "if predictionAlerts ns
              then fold (prediction_step sv) (take 3 (batch wl)) ?st2 else ?st2"
  have "?P ?st0" by simp
  then have "?P ?st1"
    using fold_step_rule [of sv "price_step sv", OF price_step_rule] by presburger
  then have "?P ?st2"
    using fold_step_rule [of sv "sentiment_step sv", OF sentiment_step_rule] by presburger
  then have "?P ?st3"
    using fold_step_rule [of sv "prediction_step sv", OF prediction_step_rule] by presburger
  then show ?thesis by (simp add: synthesize_def Let_def)
qed

text \<open>
  C6. A score strictly between 0.38 and 0.62 gives no sentiment alert; an emitted alert
  has a score of at least 0.62 or at most 0.38, with severity high when the score is at
  most 0.38 and medium otherwise; and every sentiment alert in the list of a run obeys
  this rule for its symbol.
\<close>

theorem sentiment_band:
  "(0.38 < news_score news \<and> news_score news < 0.62 \<longrightarrow> sentimentAlert sv s news nid = None)
   \<and> (sentimentAlert sv s news nid = Some a \<longrightarrow>
         (0.62 \<le> news_score news \<or> news_score news \<le> 0.38)
         \<and> alert_type a = Sentiment \<and> stock a = s
         \<and> severity a = (if news_score news \<le> 0.38 then High else Medium))
   \<and> (\<forall>b \<in> set (loadAlerts sv ns now wl). alert_type b = Sentiment \<longrightarrow> sentiment_rule sv b)"
proof (intro conjI)
  show "0.38 < news_score news \<and> news_score news < 0.62 \<longrightarrow> sentimentAlert sv s news nid = None"
    by (simp add: sentimentAlert_def Let_def)
  show "sentimentAlert sv s news nid = Some a \<longrightarrow>
         (0.62 \<le> news_score news \<or> news_score news \<le> 0.38)
         \<and> alert_type a = Sentiment \<and> stock a = s
         \<and> severity a = (if news_score news \<le> 0.38 then High else Medium)"
    by (auto simp: sentimentAlert_def Let_def split: if_splits)
  show "\<forall>b \<in> set (loadAlerts sv ns now wl). alert_type b = Sentiment \<longrightarrow> sentiment_rule sv b"
    using synthesize_rule [of sv ns now wl] by (simp add: loadAlerts_def set_sort_by)
qed

theorem sentiment_band_witness:
  "(let sv = \<lparr> getStockData = (\<lambda>s. None),
               getLatestNews = (\<lambda>s. Some \<lparr> sentimentScore = Some 0.3,
                                              overallSentiment = Some ''Negative'' \<rparr>),
               predict = (\<lambda>s. None), toFixed = (\<lambda>x d. ''0''), toText = (\<lambda>x. ''30'') \<rparr>;
        ns = \<lparr> emailAlerts = False, priceAlerts = False, sentimentAlerts = True,
               predictionAlerts = False, newsAlerts = False, weeklyReport = False \<rparr>;
        quiet = \<lparr> sentimentScore = Some 0.5, overallSentiment = Some ''Neutral'' \<rparr>;
        loud = \<lparr> sentimentScore = Some 0.3, overallSentiment = Some ''Negative'' \<rparr>;
        b = hd (loadAlerts sv ns 0 [''AAPL''])
    in 0.38 < news_score quiet \<and> news_score quiet < 0.62
       \<and> sentimentAlert sv ''AAPL'' quiet 0 = None
       \<and> sentimentAlert sv ''AAPL'' loud 0 = Some b
       \<and> news_score loud \<le> 0.38 \<and> severity b = High
       \<and> b \<in> set (loadAlerts sv ns 0 [''AAPL'']) \<and> alert_type b = Sentiment
       \<and> sentiment_rule sv b)"
proof -
  let ?sv = "\<lparr> getStockData = (\<lambda>s. None),
               getLatestNews = (\<lambda>s. Some \<lparr> sentimentScore = Some 0.3,
                                              overallSentiment = Some ''Negative'' \<rparr>),
               predict = (\<lambda>s. None), toFixed = (\<lambda>x d. ''0''), toText = (\<lambda>x. ''30'') \<rparr>"
  let ?ns = "\<lparr> emailAlerts = False, priceAlerts = False, sentimentAlerts = True,
               predictionAlerts = False, newsAlerts = False, weeklyReport = False \<rparr>"
  let ?quiet = "\<lparr> sentimentScore = Some 0.5, overallSentiment = Some ''Neutral'' \<rparr>"
  let ?loud = "\<lparr> sentimentScore = Some 0.3, overallSentiment = Some ''Negative'' \<rparr>"
  let ?b = "hd (loadAlerts ?sv ?ns 0 [''AAPL''])"
  have run: "loadAlerts ?sv ?ns 0 [''AAPL''] = [the (sentimentAlert ?sv ''AAPL'' ?loud 0)]"
    by (simp add: loadAlerts_def synthesize_def batch_def sentiment_step_def push_def
        sentimentAlert_def news_score_def sort_by_def Let_def)
  have loud: "sentimentAlert ?sv ''AAPL'' ?loud 0 = Some ?b"
    unfolding run by (simp add: sentimentAlert_def news_score_def Let_def)
  have mem: "?b \<in> set (loadAlerts ?sv ?ns 0 [''AAPL''])"
    unfolding run by simp
  have quiet: "0.38 < news_score ?quiet \<and> news_score ?quiet < 0.62"
    by (simp add: news_score_def)
  have score: "news_score ?loud \<le> 0.38"
    by (simp add: news_score_def)
  note thm1 = sentiment_band [of ?quiet ?sv "''AAPL''" 0 ?b ?ns 0 "[''AAPL'']"]
  note thm2 = sentiment_band [of ?loud ?sv "''AAPL''" 0 ?b ?ns 0 "[''AAPL'']"]
  have none: "sentimentAlert ?sv ''AAPL'' ?quiet 0 = None"
    using thm1 quiet by blast
  have sev: "severity ?b = High" and ty: "alert_type ?b = Sentiment"
    using thm2 loud score by auto
  have rule: "sentiment_rule ?sv ?b"
    using thm2 mem ty by blast
  show ?thesis
    unfolding Let_def using quiet none loud score sev mem ty rule by blast
qed

lemma alert_compare_le:
  "alert_compare a b \<le> 0 \<longleftrightarrow> alert_order a b"
  by (cases "severity a"; cases "severity b")
     (auto simp: alert_compare_def alert_order_def rank_of_def sevRank_def Let_def)

lemma alert_order_total: "alert_order a b \<or> alert_order b a"
  by (auto simp: alert_order_def)

lemma alert_order_trans: "alert_order a b \<Longrightarrow> alert_order b c \<Longrightarrow> alert_order a c"
  by (auto simp: alert_order_def)

lemma sorted_insert_by:
  "sorted_wrt alert_order xs \<Longrightarrow> sorted_wrt alert_order (insert_by alert_compare x xs)"
proof (induction xs)
  case Nil
  then show ?case by simp
next
  case (Cons y ys)
  show ?case
  proof (cases "alert_compare x y \<le> 0")
    case True
    then have xy: "alert_order x y" by (simp add: alert_compare_le)
    have "\<forall>z \<in> set ys. alert_order x z"
      using Cons.prems xy alert_order_trans by auto
    with True xy Cons.prems show ?thesis by simp
  next
    case False
    then have "alert_order y x"
      using alert_order_total [of x y] by (simp add: alert_compare_le)
    with False Cons show ?thesis by (auto simp: set_insert_by)
  qed
qed

lemma sorted_sort_by: "sorted_wrt alert_order (sort_by alert_compare xs)"
  unfolding sort_by_def by (induction xs) (simp_all add: sorted_insert_by)

text \<open>
  C7, as the code has it. The list that a run produces is a permutation of the alerts
  built, sorted by the ordering contract (the comparator of the sort is that order).
  \<open>deleteAlert\<close> keeps a sorted list sorted. \<open>markAsRead\<close> does not sort again: it leaves
  every alert at its position and changes only the read flag, which becomes true for the
  alert with the given id and stays as it was for every other alert.
\<close>

lemma markAsRead_flag:
  "markAsRead alerts i = map (\<lambda>a. a\<lparr>read := (alert_id a = i \<or> read a)\<rparr>) alerts"
  by (simp add: markAsRead_def)

theorem alert_ordering:
  "sorted_wrt alert_order (loadAlerts sv ns now wl)
   \<and> mset (loadAlerts sv ns now wl) = mset (built (synthesize sv ns now wl))
   \<and> (alert_compare a b \<le> 0 \<longleftrightarrow> alert_order a b)
   \<and> (sorted_wrt alert_order alerts \<longrightarrow> sorted_wrt alert_order (deleteAlert alerts i))
   \<and> map alert_id (markAsRead alerts i) = map alert_id alerts
   \<and> map severity (markAsRead alerts i) = map severity alerts
   \<and> map alert_type (markAsRead alerts i) = map alert_type alerts
   \<and> map stock (markAsRead alerts i) = map stock alerts
   \<and> map title (markAsRead alerts i) = map title alerts
   \<and> map message (markAsRead alerts i) = map message alerts
   \<and> map read (markAsRead alerts i) = map (\<lambda>a. alert_id a = i \<or> read a) alerts
   \<and> markAsRead alerts i = map (\<lambda>a. a\<lparr>read := (alert_id a = i \<or> read a)\<rparr>) alerts"
  by (simp add: loadAlerts_def sorted_sort_by mset_sort_by alert_compare_le deleteAlert_def
      sorted_wrt_filter markAsRead_flag)

theorem alert_ordering_witness:
  "(let sv = \<lparr> getStockData = (\<lambda>s. if s = ''AAPL'' then Some [100, 100.5]
                                   else if s = ''MSFT'' then Some [100, 103] else None),
               getLatestNews = (\<lambda>s. None), predict = (\<lambda>s. None),
               toFixed = (\<lambda>x d. ''0''), toText = (\<lambda>x. ''0'') \<rparr>;
        ns = \<lparr> emailAlerts = False, priceAlerts = True, sentimentAlerts = False,
               predictionAlerts = False, newsAlerts = False, weeklyReport = False \<rparr>;
        alerts = loadAlerts sv ns 0 [''AAPL'', ''MSFT'']
    in sorted_wrt alert_order alerts
       \<and> map alert_id alerts = [1, 0]
       \<and> sorted_wrt alert_order (deleteAlert alerts 1)
       \<and> map alert_id (deleteAlert alerts 1) = [0]
       \<and> map alert_id (markAsRead alerts 1) = [1, 0]
       \<and> map read alerts = [False, False]
       \<and> map read (markAsRead alerts 1) = [True, False])"
proof -
  let ?sv = "\<lparr> getStockData = (\<lambda>s. if s = ''AAPL'' then Some [100, 100.5]
                                   else if s = ''MSFT'' then Some [100, 103] else None),
               getLatestNews = (\<lambda>s. None), predict = (\<lambda>s. None),
               toFixed = (\<lambda>x d. ''0''), toText = (\<lambda>x. ''0'') \<rparr>"
  let ?ns = "\<lparr> emailAlerts = False, priceAlerts = True, sentimentAlerts = False,
               predictionAlerts = False, newsAlerts = False, weeklyReport = False \<rparr>"
  let ?alerts = "loadAlerts ?sv ?ns 0 [''AAPL'', ''MSFT'']"
  note thm1 = alert_ordering [of ?sv ?ns 0 "[''AAPL'', ''MSFT'']" "hd ?alerts" "hd ?alerts"
      ?alerts 1]
  have ids: "map alert_id ?alerts = [1, 0]"
    by (simp add: loadAlerts_def synthesize_def batch_def price_step_def push_def
        priceAlert_def severityFromPct_def sort_by_def alert_compare_def rank_of_def
        sevRank_def Let_def)
  have sorted: "sorted_wrt alert_order ?alerts" using thm1 by blast
  then have del: "sorted_wrt alert_order (deleteAlert ?alerts 1)" using thm1 by blast
  have del_ids: "map alert_id (deleteAlert ?alerts 1) = [0]"
    using ids by (auto simp: deleteAlert_def map_eq_Cons_conv)
  have "map alert_id (markAsRead ?alerts 1) = map alert_id ?alerts"
    using thm1 by blast
  with ids have mark_ids: "map alert_id (markAsRead ?alerts 1) = [1, 0]" by simp
  have unread: "map read ?alerts = [False, False]"
    by (simp add: loadAlerts_def synthesize_def batch_def price_step_def push_def
        priceAlert_def severityFromPct_def sort_by_def alert_compare_def rank_of_def
        sevRank_def Let_def)
  have flags: "map (\<lambda>a. alert_id a = 1 \<or> read a) ?alerts = [True, False]"
    using ids unread by (auto simp: map_eq_Cons_conv)
  have "map read (markAsRead ?alerts 1) = map (\<lambda>a. alert_id a = 1 \<or> read a) ?alerts"
    using thm1 by blast
  with flags have mark_read: "map read (markAsRead ?alerts 1) = [True, False]" by simp
  from sorted ids del del_ids mark_ids unread mark_read show ?thesis
    unfolding Let_def by blast
qed

text \<open>
  The claim that the order is applied again after a read fails: after two price alerts
  are synthesized (MSFT high with id 1, AAPL low with id 0) and the first is marked as
  read, a read alert stands before an unread one.
\<close>

theorem markAsRead_order_counterexample:
  "(let sv = \<lparr> getStockData = (\<lambda>s. if s = ''AAPL'' then Some [100, 100.5]
                                   else if s = ''MSFT'' then Some [100, 103] else None),
               getLatestNews = (\<lambda>s. None), predict = (\<lambda>s. None),
               toFixed = (\<lambda>x d. ''0''), toText = (\<lambda>x. ''0'') \<rparr>;
        ns = \<lparr> emailAlerts = False, priceAlerts = True, sentimentAlerts = False,
               predictionAlerts = False, newsAlerts = False, weeklyReport = False \<rparr>;
        alerts = loadAlerts sv ns 0 [''AAPL'', ''MSFT'']
    in map (\<lambda>a. (alert_id a, severity a, read a)) alerts = [(1, High, False), (0, Low, False)]
       \<and> map (\<lambda>a. (alert_id a, severity a, read a)) (markAsRead alerts 1)
           = [(1, High, True), (0, Low, False)]
       \<and> \<not> sorted_wrt alert_order (markAsRead alerts 1))"
  by (simp add: loadAlerts_def synthesize_def batch_def price_step_def push_def
      priceAlert_def severityFromPct_def sort_by_def alert_compare_def rank_of_def
      sevRank_def Let_def markAsRead_def alert_order_def)

text \<open>
  C8, as the code has it. Price alerts are generated, and stock data fetched, only when
  \<open>priceAlerts\<close> is set; prediction alerts and forecasts only when \<open>predictionAlerts\<close> is
  set. Sentiment alerts are generated, and news fetched, when \<open>sentimentAlerts\<close> or
  \<open>newsAlerts\<close> is set. When its condition holds, a type yields an alert for a symbol
  exactly when the symbol is in the type's batch and its fetch succeeds (for sentiment:
  with a score outside the band), and a fetch is issued for exactly the symbols of that
  batch; when it does not hold, no fetch of that type is issued.
\<close>

theorem preference_gating:
  "((\<exists>a \<in> set (loadAlerts sv ns now wl). alert_type a = Price \<and> stock a = s)
       \<longleftrightarrow> priceAlerts ns \<and> s \<in> set (batch wl) \<and> getStockData sv s \<noteq> None)
   \<and> (GetStockData s \<in> set (requests (synthesize sv ns now wl))
       \<longleftrightarrow> priceAlerts ns \<and> s \<in> set (batch wl))
   \<and> ((\<exists>a \<in> set (loadAlerts sv ns now wl). alert_type a = Prediction \<and> stock a = s)
       \<longleftrightarrow> predictionAlerts ns \<and> s \<in> set (take 3 (batch wl)) \<and> predict sv s \<noteq> None)
   \<and> (Predict s \<in> set (requests (synthesize sv ns now wl))
       \<longleftrightarrow> predictionAlerts ns \<and> s \<in> set (take 3 (batch wl)))
   \<and> ((\<exists>a \<in> set (loadAlerts sv ns now wl). alert_type a = Sentiment \<and> stock a = s)
       \<longleftrightarrow> (sentimentAlerts ns \<or> newsAlerts ns) \<and> s \<in> set (take 6 (batch wl))
           \<and> (\<exists>n. getLatestNews sv s = Some n
                  \<and> (0.62 \<le> news_score n \<or> news_score n \<le> 0.38)))
   \<and> (GetLatestNews s \<in> set (requests (synthesize sv ns now wl))
       \<longleftrightarrow> (sentimentAlerts ns \<or> newsAlerts ns) \<and> s \<in> set (take 6 (batch wl)))"
  unfolding alert_of_kind synthesize_types synthesize_requests
  by (auto simp: emits_def split: option.splits)

theorem preference_gating_witness:
  "(let sv = \<lparr> getStockData = (\<lambda>s. Some [100, 103]),
               getLatestNews = (\<lambda>s. Some \<lparr> sentimentScore = Some 0.9,
                                              overallSentiment = Some ''Positive'' \<rparr>),
               predict = (\<lambda>s. None), toFixed = (\<lambda>x d. ''0''), toText = (\<lambda>x. ''90'') \<rparr>;
        ns = \<lparr> emailAlerts = True, priceAlerts = True, sentimentAlerts = False,
               predictionAlerts = True, newsAlerts = False, weeklyReport = True \<rparr>
    in ''AAPL'' \<in> set (batch []) \<and> getStockData sv ''AAPL'' \<noteq> None
       \<and> (\<exists>a \<in> set (loadAlerts sv ns 0 []). alert_type a = Price \<and> stock a = ''AAPL'')
       \<and> GetStockData ''AAPL'' \<in> set (requests (synthesize sv ns 0 []))
       \<and> Predict ''AAPL'' \<in> set (requests (synthesize sv ns 0 []))
       \<and> GetLatestNews ''AAPL'' \<notin> set (requests (synthesize sv ns 0 []))
       \<and> \<not> (\<exists>a \<in> set (loadAlerts sv ns 0 []). alert_type a = Sentiment \<and> stock a = ''AAPL''))"
proof -
  let ?sv = "\<lparr> getStockData = (\<lambda>s. Some [100, 103]),
               getLatestNews = (\<lambda>s. Some \<lparr> sentimentScore = Some 0.9,
                                              overallSentiment = Some ''Positive'' \<rparr>),
               predict = (\<lambda>s. None), toFixed = (\<lambda>x d. ''0''), toText = (\<lambda>x. ''90'') \<rparr>"
  let ?ns = "\<lparr> emailAlerts = True, priceAlerts = True, sentimentAlerts = False,
               predictionAlerts = True, newsAlerts = False, weeklyReport = True \<rparr>"
  have mem: "''AAPL'' \<in> set (batch [])" "''AAPL'' \<in> set (take 3 (batch []))"
    by (simp_all add: batch_def)
  have ok: "getStockData ?sv ''AAPL'' \<noteq> None" "priceAlerts ?ns" "predictionAlerts ?ns"
    "\<not> (sentimentAlerts ?ns \<or> newsAlerts ?ns)"
    by simp_all
  show ?thesis
    unfolding Let_def using preference_gating [of ?sv ?ns 0 "[]" "''AAPL''"] mem ok by blast
qed

text \<open>
  The claim that no other flag enables a type fails for sentiment: with \<open>sentimentAlerts\<close>
  off and \<open>newsAlerts\<close> on, the news is fetched and a sentiment alert is generated.
\<close>

theorem news_flag_counterexample:
  "(let sv = \<lparr> getStockData = (\<lambda>s. None),
               getLatestNews = (\<lambda>s. Some \<lparr> sentimentScore = Some 0.9,
                                              overallSentiment = Some ''Positive'' \<rparr>),
               predict = (\<lambda>s. None), toFixed = (\<lambda>x d. ''0''), toText = (\<lambda>x. ''90'') \<rparr>;
        ns = \<lparr> emailAlerts = False, priceAlerts = False, sentimentAlerts = False,
               predictionAlerts = False, newsAlerts = True, weeklyReport = False \<rparr>
    in sentimentAlerts ns = False
       \<and> map (\<lambda>a. (alert_type a, stock a, severity a)) (loadAlerts sv ns 0 [''AAPL''])
           = [(Sentiment, ''AAPL'', Medium)]
       \<and> requests (synthesize sv ns 0 [''AAPL'']) = [GetLatestNews ''AAPL''])"
  by (simp add: loadAlerts_def synthesize_def batch_def sentiment_step_def push_def
      sentimentAlert_def news_score_def sort_by_def Let_def)

lemma prediction_step_mono: "set (built st) \<subseteq> set (built (prediction_step sv s st))"
  by (auto simp: prediction_step_def push_def Let_def split: option.splits)

lemma fold_prediction_step_mono:
  "set (built st) \<subseteq> set (built (fold (prediction_step sv) syms st))"
proof (induction syms arbitrary: st)
  case Nil
  then show ?case by simp
next
  case (Cons s syms)
  have "set (built st) \<subseteq> set (built (prediction_step sv s st))"
    by (rule prediction_step_mono)
  also have "\<dots> \<subseteq> set (built (fold (prediction_step sv) syms (prediction_step sv s st)))"
    by (rule Cons.IH)
  finally show ?case by simp
qed

lemma fold_prediction_step_mem:
  "s \<in> set syms \<Longrightarrow> predict sv s = Some pred
     \<Longrightarrow> \<exists>nid. predictionAlert sv s pred nid \<in> set (built (fold (prediction_step sv) syms st))"
proof (induction syms arbitrary: st)
  case Nil
  then show ?case by simp
next
  case (Cons x syms)
  show ?case
  proof (cases "s \<in> set syms")
    case True
    from Cons.IH [OF True Cons.prems(2)] show ?thesis by simp
  next
    case False
    with Cons.prems have "x = s" by simp
    then have "predictionAlert sv s pred (nextId st) \<in> set (built (prediction_step sv x st))"
      using Cons.prems(2) by (simp add: prediction_step_def push_def Let_def)
    then show ?thesis
      using fold_prediction_step_mono [of "prediction_step sv x st" sv syms] by auto
  qed
qed

lemma predictionAlert_fields:
  "alert_id (predictionAlert sv s pred nid) = nid"
  "alert_type (predictionAlert sv s pred nid) = Prediction"
  "stock (predictionAlert sv s pred nid) = s"
  "read (predictionAlert sv s pred nid) = False"
  "severity (predictionAlert sv s pred nid) = severityFromPct (jabs (prediction_pct pred))"
  "title (predictionAlert sv s pred nid)
     = (if jge (prediction_pct pred) (Fin 0) then ''Bullish'' else ''Bearish'')
       @ '' prediction ('' @ s @ '')''"
  "message (predictionAlert sv s pred nid)
     = s @ '' predicted '' @ (if jge (prediction_pct pred) (Fin 0) then ''up'' else ''down'')
       @ '' '' @ toFixed sv (jabs (prediction_pct pred)) 2 @ ''% (1-step forecast)''"
  by (simp_all add: predictionAlert_def prediction_pct_def Let_def)

lemma prediction_pct_first:
  assumes "predictions pred = Some (p # ps)"
  shows "prediction_pct pred
           = (if 0 < current_price pred
              then Fin ((p - current_price pred) / current_price pred * 100) else Fin 0)"
  using assms by (simp add: prediction_pct_def elem_at_def jsub_def Let_def)

lemma predictionAlert_zero_change:
  assumes "predictions pred = Some (p # ps)" and "p = current_price pred"
  shows "alert_type (predictionAlert sv s pred nid) = Prediction"
    and "stock (predictionAlert sv s pred nid) = s"
    and "title (predictionAlert sv s pred nid) = ''Bullish prediction ('' @ s @ '')''"
    and "message (predictionAlert sv s pred nid)
           = s @ '' predicted up '' @ toFixed sv (Fin 0) 2 @ ''% (1-step forecast)''"
    and "severity (predictionAlert sv s pred nid) = Low"
  using assms
  by (simp_all add: predictionAlert_def elem_at_def jsub_def severityFromPct_def Let_def)

lemma prediction_pct_nonneg:
  assumes "predictions pred = Some (p # ps)" and "current_price pred \<le> p"
  shows "jge (prediction_pct pred) (Fin 0)"
  using assms by (simp add: prediction_pct_first [OF assms(1)])

lemma prediction_pct_negative:
  assumes "predictions pred = Some (p # ps)" and "0 < current_price pred"
    and "p < current_price pred"
  shows "\<not> jge (prediction_pct pred) (Fin 0)"
proof -
  have "(p - current_price pred) / current_price pred * 100 < 0"
    using assms(2,3) by (simp add: field_simps)
  then show ?thesis
    using assms(2) by (simp add: prediction_pct_first [OF assms(1)])
qed

lemma prediction_pct_zero:
  assumes "current_price pred \<le> 0 \<or> predictions pred = None"
  shows "prediction_pct pred = Fin 0"
  using assms by (auto simp: prediction_pct_def jsub_def Let_def)

lemma prediction_pct_empty:
  assumes "predictions pred = Some []" and "0 < current_price pred"
  shows "prediction_pct pred = NaN"
  using assms by (simp add: prediction_pct_def elem_at_def jsub_def Let_def)

text \<open>
  C10. A prediction alert is classified by the rule \<open>pct >= 0\<close>: its title is Bullish and
  its message says up when the percent change is at least 0, Bearish and down otherwise
  (also when the percent change is \<open>NaN\<close>, as it is for an empty prediction list), and
  its severity is read from the absolute percent change with the thresholds 2 and 1. So
  a first forecast at or above the current price gives Bullish, and one below a positive
  current price gives Bearish; the percent change is 0 when the current price is not
  positive or the predictions are not an array. When the first forecast
  equals the current price the alert is titled Bullish, its message says up, and its
  severity is low; a run with prediction alerts enabled puts such an alert in its list
  for every symbol of the prediction batch with such a response. On the same response
  the trend of \<open>runPrediction\<close> (with no latest close, so that the current price is the
  model's) is Bearish.
\<close>

theorem prediction_alert_zero_change:
  "title (predictionAlert sv s pred nid)
     = (if jge (prediction_pct pred) (Fin 0) then ''Bullish'' else ''Bearish'')
       @ '' prediction ('' @ s @ '')''
   \<and> message (predictionAlert sv s pred nid)
     = s @ '' predicted '' @ (if jge (prediction_pct pred) (Fin 0) then ''up'' else ''down'')
       @ '' '' @ toFixed sv (jabs (prediction_pct pred)) 2 @ ''% (1-step forecast)''
   \<and> severity (predictionAlert sv s pred nid) = severityFromPct (jabs (prediction_pct pred))
   \<and> alert_type (predictionAlert sv s pred nid) = Prediction
   \<and> stock (predictionAlert sv s pred nid) = s
   \<and> alert_id (predictionAlert sv s pred nid) = nid
   \<and> read (predictionAlert sv s pred nid) = False
   \<and> (prediction_pct pred = Fin x \<longrightarrow>
         severity (predictionAlert sv s pred nid)
           = (if 2 \<le> \<bar>x\<bar> then High else if 1 \<le> \<bar>x\<bar> then Medium else Low))
   \<and> (prediction_pct pred = NaN \<longrightarrow>
         title (predictionAlert sv s pred nid) = ''Bearish prediction ('' @ s @ '')''
         \<and> severity (predictionAlert sv s pred nid) = Low)
   \<and> (current_price pred \<le> 0 \<or> predictions pred = None \<longrightarrow> prediction_pct pred = Fin 0)
   \<and> (predictions pred = Some [] \<and> 0 < current_price pred \<longrightarrow> prediction_pct pred = NaN)
   \<and> (predictions pred = Some (p # ps) \<and> current_price pred \<le> p \<longrightarrow>
         title (predictionAlert sv s pred nid) = ''Bullish prediction ('' @ s @ '')''
         \<and> message (predictionAlert sv s pred nid)
              = s @ '' predicted up '' @ toFixed sv (jabs (prediction_pct pred)) 2
                @ ''% (1-step forecast)'')
   \<and> (predictions pred = Some (p # ps) \<and> 0 < current_price pred \<and> p < current_price pred \<longrightarrow>
         title (predictionAlert sv s pred nid) = ''Bearish prediction ('' @ s @ '')''
         \<and> message (predictionAlert sv s pred nid)
              = s @ '' predicted down '' @ toFixed sv (jabs (prediction_pct pred)) 2
                @ ''% (1-step forecast)'')
   \<and> (predictions pred = Some (p # ps) \<and> p = current_price pred \<longrightarrow>
      title (predictionAlert sv s pred nid) = ''Bullish prediction ('' @ s @ '')''
      \<and> message (predictionAlert sv s pred nid)
           = s @ '' predicted up '' @ toFixed sv (Fin 0) 2 @ ''% (1-step forecast)''
      \<and> severity (predictionAlert sv s pred nid) = Low
      \<and> trend (runPrediction None pred) = ''Bearish'')
   \<and> (predictions pred = Some (p # ps) \<and> p = current_price pred
       \<and> predictionAlerts ns \<and> s \<in> set (take 3 (batch wl)) \<and> predict sv s = Some pred \<longrightarrow>
       (\<exists>a \<in> set (loadAlerts sv ns now wl).
          alert_type a = Prediction \<and> stock a = s
          \<and> title a = ''Bullish prediction ('' @ s @ '')''
          \<and> message a = s @ '' predicted up '' @ toFixed sv (Fin 0) 2 @ ''% (1-step forecast)''
          \<and> severity a = Low))"
proof (intro conjI impI)
  show "title (predictionAlert sv s pred nid)
     = (if jge (prediction_pct pred) (Fin 0) then ''Bullish'' else ''Bearish'')
       @ '' prediction ('' @ s @ '')''"
    by (rule predictionAlert_fields)
  show "message (predictionAlert sv s pred nid)
     = s @ '' predicted '' @ (if jge (prediction_pct pred) (Fin 0) then ''up'' else ''down'')
       @ '' '' @ toFixed sv (jabs (prediction_pct pred)) 2 @ ''% (1-step forecast)''"
    by (rule predictionAlert_fields)
  show "severity (predictionAlert sv s pred nid) = severityFromPct (jabs (prediction_pct pred))"
    by (rule predictionAlert_fields)
  show "alert_type (predictionAlert sv s pred nid) = Prediction"
    by (rule predictionAlert_fields)
  show "stock (predictionAlert sv s pred nid) = s"
    by (rule predictionAlert_fields)
  show "alert_id (predictionAlert sv s pred nid) = nid"
    by (rule predictionAlert_fields)
  show "read (predictionAlert sv s pred nid) = False"
    by (rule predictionAlert_fields)
next
  assume "prediction_pct pred = Fin x"
  then show "severity (predictionAlert sv s pred nid)
           = (if 2 \<le> \<bar>x\<bar> then High else if 1 \<le> \<bar>x\<bar> then Medium else Low)"
    by (simp add: predictionAlert_fields severityFromPct_def)
next
  assume "prediction_pct pred = NaN"
  then show "title (predictionAlert sv s pred nid) = ''Bearish prediction ('' @ s @ '')''"
    and "severity (predictionAlert sv s pred nid) = Low"
    by (simp_all add: predictionAlert_fields severityFromPct_def)
next
  assume "current_price pred \<le> 0 \<or> predictions pred = None"
  then show "prediction_pct pred = Fin 0" by (rule prediction_pct_zero)
next
  assume "predictions pred = Some [] \<and> 0 < current_price pred"
  then show "prediction_pct pred = NaN" using prediction_pct_empty [of pred] by simp
next
  assume a: "predictions pred = Some (p # ps) \<and> current_price pred \<le> p"
  then have "jge (prediction_pct pred) (Fin 0)"
    using prediction_pct_nonneg [of pred p ps] by simp
  then show "title (predictionAlert sv s pred nid) = ''Bullish prediction ('' @ s @ '')''"
    and "message (predictionAlert sv s pred nid)
              = s @ '' predicted up '' @ toFixed sv (jabs (prediction_pct pred)) 2
                @ ''% (1-step forecast)''"
    by (simp_all add: predictionAlert_fields)
next
  assume a: "predictions pred = Some (p # ps) \<and> 0 < current_price pred \<and> p < current_price pred"
  then have "\<not> jge (prediction_pct pred) (Fin 0)"
    using prediction_pct_negative [of pred p ps] by simp
  then show "title (predictionAlert sv s pred nid) = ''Bearish prediction ('' @ s @ '')''"
    and "message (predictionAlert sv s pred nid)
              = s @ '' predicted down '' @ toFixed sv (jabs (prediction_pct pred)) 2
                @ ''% (1-step forecast)''"
    by (simp_all add: predictionAlert_fields)
next
  assume a: "predictions pred = Some (p # ps) \<and> p = current_price pred"
  then show "title (predictionAlert sv s pred nid) = ''Bullish prediction ('' @ s @ '')''"
    and "message (predictionAlert sv s pred nid)
           = s @ '' predicted up '' @ toFixed sv (Fin 0) 2 @ ''% (1-step forecast)''"
    and "severity (predictionAlert sv s pred nid) = Low"
    using predictionAlert_zero_change [of pred p ps] by simp_all
  from a show "trend (runPrediction None pred) = ''Bearish''"
    by (simp add: runPrediction_def Let_def)
next
  assume a: "predictions pred = Some (p # ps) \<and> p = current_price pred
       \<and> predictionAlerts ns \<and> s \<in> set (take 3 (batch wl)) \<and> predict sv s = Some pred"
  then obtain nid where
    "predictionAlert sv s pred nid \<in> set (built (synthesize sv ns now wl))"
    using fold_prediction_step_mem [of s "take 3 (batch wl)" sv pred]
    by (auto simp: synthesize_def Let_def)
  then have "predictionAlert sv s pred nid \<in> set (loadAlerts sv ns now wl)"
    by (simp add: loadAlerts_def set_sort_by)
  then show "\<exists>a \<in> set (loadAlerts sv ns now wl).
          alert_type a = Prediction \<and> stock a = s
          \<and> title a = ''Bullish prediction ('' @ s @ '')''
          \<and> message a = s @ '' predicted up '' @ toFixed sv (Fin 0) 2 @ ''% (1-step forecast)''
          \<and> severity a = Low"
    using a predictionAlert_zero_change [of pred p ps sv s nid] by blast
qed

theorem prediction_alert_zero_change_witness:
  "(let pred = \<lparr> symbol = ''AAPL'', current_price = 150, predictions = Some [150] \<rparr>;
        fall = \<lparr> symbol = ''AAPL'', current_price = 100, predictions = Some [97] \<rparr>;
        rise = \<lparr> symbol = ''AAPL'', current_price = 100, predictions = Some [101.5] \<rparr>;
        none = \<lparr> symbol = ''AAPL'', current_price = 100, predictions = Some [] \<rparr>;
        sv = \<lparr> getStockData = (\<lambda>s. None), getLatestNews = (\<lambda>s. None),
               predict = (\<lambda>s. Some pred), toFixed = (\<lambda>x d. ''0.00''), toText = (\<lambda>x. ''0'') \<rparr>;
        ns = \<lparr> emailAlerts = False, priceAlerts = False, sentimentAlerts = False,
               predictionAlerts = True, newsAlerts = False, weeklyReport = False \<rparr>
    in predictions pred = Some (150 # []) \<and> 150 = current_price pred
       \<and> predictionAlerts ns \<and> ''AAPL'' \<in> set (take 3 (batch [''AAPL'']))
       \<and> predict sv ''AAPL'' = Some pred
       \<and> title (predictionAlert sv ''AAPL'' pred 7) = ''Bullish prediction (AAPL)''
       \<and> message (predictionAlert sv ''AAPL'' pred 7) = ''AAPL predicted up 0.00% (1-step forecast)''
       \<and> severity (predictionAlert sv ''AAPL'' pred 7) = Low
       \<and> trend (runPrediction None pred) = ''Bearish''
       \<and> (\<exists>a \<in> set (loadAlerts sv ns 7 [''AAPL'']).
            alert_type a = Prediction \<and> stock a = ''AAPL''
            \<and> title a = ''Bullish prediction (AAPL)''
            \<and> message a = ''AAPL predicted up 0.00% (1-step forecast)''
            \<and> severity a = Low)
       \<and> predictions fall = Some (97 # []) \<and> 0 < current_price fall \<and> 97 < current_price fall
       \<and> prediction_pct fall = Fin (- 3)
       \<and> title (predictionAlert sv ''AAPL'' fall 8) = ''Bearish prediction (AAPL)''
       \<and> message (predictionAlert sv ''AAPL'' fall 8)
            = ''AAPL predicted down 0.00% (1-step forecast)''
       \<and> severity (predictionAlert sv ''AAPL'' fall 8) = High
       \<and> predictions rise = Some (101.5 # []) \<and> current_price rise \<le> 101.5
       \<and> prediction_pct rise = Fin 1.5
       \<and> title (predictionAlert sv ''AAPL'' rise 9) = ''Bullish prediction (AAPL)''
       \<and> severity (predictionAlert sv ''AAPL'' rise 9) = Medium
       \<and> predictions none = Some [] \<and> 0 < current_price none
       \<and> prediction_pct none = NaN
       \<and> title (predictionAlert sv ''AAPL'' none 10) = ''Bearish prediction (AAPL)''
       \<and> severity (predictionAlert sv ''AAPL'' none 10) = Low)"
proof -
  let ?pred = "\<lparr> symbol = ''AAPL'', current_price = 150, predictions = Some [150] \<rparr>"
  let ?fall = "\<lparr> symbol = ''AAPL'', current_price = 100, predictions = Some [97] \<rparr>"
  let ?rise = "\<lparr> symbol = ''AAPL'', current_price = 100, predictions = Some [101.5] \<rparr>"
  let ?none = "\<lparr> symbol = ''AAPL'', current_price = 100, predictions = Some [] \<rparr>"
  let ?sv = "\<lparr> getStockData = (\<lambda>s. None), getLatestNews = (\<lambda>s. None),
               predict = (\<lambda>s. Some ?pred), toFixed = (\<lambda>x d. ''0.00''), toText = (\<lambda>x. ''0'') \<rparr>"
  let ?ns = "\<lparr> emailAlerts = False, priceAlerts = False, sentimentAlerts = False,
               predictionAlerts = True, newsAlerts = False, weeklyReport = False \<rparr>"
  have hyp: "predictions ?pred = Some (150 # []) \<and> 150 = current_price ?pred
       \<and> predictionAlerts ?ns \<and> ''AAPL'' \<in> set (take 3 (batch [''AAPL'']))
       \<and> predict ?sv ''AAPL'' = Some ?pred"
    by (simp add: batch_def)
  note zero_thm =
    prediction_alert_zero_change [of ?sv "''AAPL''" ?pred 7 0 150 "[]" ?ns "[''AAPL'']" 7]
  have zero_alert: "title (predictionAlert ?sv ''AAPL'' ?pred 7)
         = ''Bullish prediction ('' @ ''AAPL'' @ '')''
       \<and> message (predictionAlert ?sv ''AAPL'' ?pred 7)
         = ''AAPL'' @ '' predicted up '' @ toFixed ?sv (Fin 0) 2 @ ''% (1-step forecast)''
       \<and> severity (predictionAlert ?sv ''AAPL'' ?pred 7) = Low
       \<and> trend (runPrediction None ?pred) = ''Bearish''"
    using zero_thm hyp by blast
  have zero_run: "\<exists>a \<in> set (loadAlerts ?sv ?ns 7 [''AAPL'']).
          alert_type a = Prediction \<and> stock a = ''AAPL''
          \<and> title a = ''Bullish prediction ('' @ ''AAPL'' @ '')''
          \<and> message a = ''AAPL'' @ '' predicted up '' @ toFixed ?sv (Fin 0) 2
                @ ''% (1-step forecast)''
          \<and> severity a = Low"
    using zero_thm hyp by blast
  have zero: "title (predictionAlert ?sv ''AAPL'' ?pred 7) = ''Bullish prediction (AAPL)''
       \<and> message (predictionAlert ?sv ''AAPL'' ?pred 7) = ''AAPL predicted up 0.00% (1-step forecast)''
       \<and> severity (predictionAlert ?sv ''AAPL'' ?pred 7) = Low
       \<and> trend (runPrediction None ?pred) = ''Bearish''
       \<and> (\<exists>a \<in> set (loadAlerts ?sv ?ns 7 [''AAPL'']).
            alert_type a = Prediction \<and> stock a = ''AAPL''
            \<and> title a = ''Bullish prediction (AAPL)''
            \<and> message a = ''AAPL predicted up 0.00% (1-step forecast)''
            \<and> severity a = Low)"
    using zero_alert zero_run by simp
  have fall_hyp: "predictions ?fall = Some (97 # []) \<and> 0 < current_price ?fall
       \<and> 97 < current_price ?fall"
    by simp
  note fall_thm =
    prediction_alert_zero_change [of ?sv "''AAPL''" ?fall 8 "- 3" 97 "[]" ?ns "[''AAPL'']" 7]
  have fall_pct: "prediction_pct ?fall = Fin (- 3)"
    by (simp add: prediction_pct_def elem_at_def jsub_def)
  have "severity (predictionAlert ?sv ''AAPL'' ?fall 8)
          = (if 2 \<le> \<bar>- 3 :: real\<bar> then High else if 1 \<le> \<bar>- 3 :: real\<bar> then Medium else Low)"
    using fall_thm fall_pct by blast
  then have fall_sev: "severity (predictionAlert ?sv ''AAPL'' ?fall 8) = High" by simp
  have "title (predictionAlert ?sv ''AAPL'' ?fall 8) = ''Bearish prediction ('' @ ''AAPL'' @ '')''
       \<and> message (predictionAlert ?sv ''AAPL'' ?fall 8)
            = ''AAPL'' @ '' predicted down ''
              @ toFixed ?sv (jabs (prediction_pct ?fall)) 2 @ ''% (1-step forecast)''"
    using fall_thm fall_hyp by blast
  with fall_sev have fall: "title (predictionAlert ?sv ''AAPL'' ?fall 8) = ''Bearish prediction (AAPL)''
       \<and> message (predictionAlert ?sv ''AAPL'' ?fall 8)
            = ''AAPL predicted down 0.00% (1-step forecast)''
       \<and> severity (predictionAlert ?sv ''AAPL'' ?fall 8) = High"
    by simp
  have rise_hyp: "predictions ?rise = Some (101.5 # []) \<and> current_price ?rise \<le> 101.5"
    by simp
  note rise_thm =
    prediction_alert_zero_change [of ?sv "''AAPL''" ?rise 9 "1.5" "101.5" "[]" ?ns "[''AAPL'']" 7]
  have rise_pct: "prediction_pct ?rise = Fin 1.5"
    by (simp add: prediction_pct_def elem_at_def jsub_def)
  have "severity (predictionAlert ?sv ''AAPL'' ?rise 9)
          = (if 2 \<le> \<bar>1.5 :: real\<bar> then High else if 1 \<le> \<bar>1.5 :: real\<bar> then Medium else Low)"
    using rise_thm rise_pct by blast
  then have rise_sev: "severity (predictionAlert ?sv ''AAPL'' ?rise 9) = Medium" by simp
  have "title (predictionAlert ?sv ''AAPL'' ?rise 9) = ''Bullish prediction ('' @ ''AAPL'' @ '')''"
    using rise_thm rise_hyp by blast
  with rise_sev have rise: "title (predictionAlert ?sv ''AAPL'' ?rise 9) = ''Bullish prediction (AAPL)''
       \<and> severity (predictionAlert ?sv ''AAPL'' ?rise 9) = Medium"
    by simp
  note none_thm =
    prediction_alert_zero_change [of ?sv "''AAPL''" ?none 10 0 0 "[]" ?ns "[''AAPL'']" 7]
  have none_hyp: "predictions ?none = Some [] \<and> 0 < current_price ?none" by simp
  have none_pct: "prediction_pct ?none = NaN"
    using none_thm none_hyp by blast
  have "title (predictionAlert ?sv ''AAPL'' ?none 10) = ''Bearish prediction ('' @ ''AAPL'' @ '')''
       \<and> severity (predictionAlert ?sv ''AAPL'' ?none 10) = Low"
    using none_thm none_pct by blast
  then have none: "title (predictionAlert ?sv ''AAPL'' ?none 10) = ''Bearish prediction (AAPL)''
       \<and> severity (predictionAlert ?sv ''AAPL'' ?none 10) = Low"
    by simp
  show ?thesis
    unfolding Let_def
    using hyp zero fall_hyp fall_pct fall rise_hyp rise_pct rise none_hyp none_pct none by blast
qed

end
